theory Spec2Isabelle
  imports Main "HOL-Library.Char_ord" "HOL-Library.List_Lexorder" "HOL-Library.Sublist"
begin

section \<open>The build orchestrator of build.go, embedded in HOL\<close>

text \<open>
  The program locates the Android toolchain under an SDK root, runs seven external
  programs in a fixed order and removes its temporary artifacts.  Everything it does is a
  call into the operating system, so the embedding passes an explicit state around: the
  state of the outside world (of an arbitrary type \<open>'w\<close>) and the chronological trace
  of every call the program has made.  The operating system is a record of functions over
  the world; the theorems hold for every such record.

  A Go \<open>error\<close> is modelled by its message (\<open>err.Error()\<close>), a \<open>nil\<close> error by
  \<open>None\<close>.
\<close>

subsection \<open>Strings and formatting\<close>

type_synonym path = string
type_synonym goerror = string

definition nl :: string where
  "nl = [CHR 0x0A]"

text \<open>The format strings of the source write \<open>'%v'\<close>: the value between apostrophes.\<close>

definition quoted :: "string \<Rightarrow> string" where
  "quoted s = CHR 0x27 # s @ [CHR 0x27]"

text \<open>\<open>%v\<close> of a non-negative \<open>int\<close>: its decimal digits.\<close>

definition digit_char :: "nat \<Rightarrow> char" where
  "digit_char d = char_of (48 + d)"

fun show_nat :: "nat \<Rightarrow> string" where
  "show_nat n = (if n < 10 then [digit_char n] else show_nat (n div 10) @ [digit_char (n mod 10)])"

subsection \<open>Constants of the source\<close>

definition outputDirForGeneratedSourceFiles :: path where
  "outputDirForGeneratedSourceFiles = ''generated_java_sources''"

definition outputDirForBytecode :: path where
  "outputDirForBytecode = ''java_virtual_machine_bytecode''"

definition outputDexFilepath :: path where
  "outputDexFilepath = ''classes.dex''"

definition filepathOfAPK :: path where
  "filepathOfAPK = ''app.apk''"

definition filepathOfUnalignedAPK :: path where
  "filepathOfUnalignedAPK = ''app.apk.unaligned''"

subsection \<open>The regular expressions \<open>spaces\<close> and \<open>javaFilename\<close>\<close>

text \<open>
  \<open>spaces = regexp.MustCompile(`\s+`)\<close>.  In Go's syntax \<open>\s\<close> is the class
  \<open>[\t\n\f\r ]\<close>.
\<close>

definition isspace :: "char \<Rightarrow> bool" where
  "isspace c = (c = CHR 0x09 \<or> c = CHR 0x0A \<or> c = CHR 0x0C \<or> c = CHR 0x0D \<or> c = CHR 0x20)"

text \<open>
  \<open>spaces.ReplaceAllString(command, " ")\<close>: the matches of \<open>\s+\<close> are found from left
  to right, each as long as possible, and each is replaced by one space.
\<close>

function spaces_ReplaceAllString :: "string \<Rightarrow> string" where
  "spaces_ReplaceAllString [] = []"
| "spaces_ReplaceAllString (c # cs) =
     (if isspace c then CHR 0x20 # spaces_ReplaceAllString (dropWhile isspace cs)
      else c # spaces_ReplaceAllString cs)"
  by pat_completeness auto
termination
  by (relation "measure length") (auto simp: length_dropWhile_le less_Suc_eq_le)

text \<open>
  \<open>strings.Split(s, " ")\<close>: the pieces of \<open>s\<close> between the spaces.  The result is
  never empty: a string without a space gives itself, the empty string included.
\<close>

fun strings_Split :: "string \<Rightarrow> string list" where
  "strings_Split [] = [[]]"
| "strings_Split (c # cs) =
     (if c = CHR 0x20 then [] # strings_Split cs
      else (case strings_Split cs of
              [] \<Rightarrow> [[c]]
            | t # ts \<Rightarrow> (c # t) # ts))"

text \<open>
  \<open>javaFilename = regexp.MustCompile(`.*\.java$`)\<close> and \<open>javaFilename.MatchString\<close>:
  the expression is not anchored at the start, so a name matches when, from some
  position on, it reads: characters other than a newline (\<open>.*\<close>), then \<open>.java\<close>,
  then the end of the text.
\<close>

definition javaFilename_MatchString :: "string \<Rightarrow> bool" where
  "javaFilename_MatchString name =
     (\<exists>i \<in> set [0..<Suc (length name)].
        \<exists>j \<in> set [i..<Suc (length name)].
          CHR 0x0A \<notin> set (take (j - i) (drop i name)) \<and> drop j name = ''.java'')"

subsection \<open>The file system as the program sees it\<close>

text \<open>
  A node is what \<open>Lstat\<close> finds at a path: a file, or a directory with its entries in
  the order in which the directory lists them (\<open>Readdir\<close> keeps that order).  Two more
  nodes stand for the failures a walk can meet: a directory that cannot be listed, and an
  entry that is listed but cannot be examined.  \<open>filepath.Walk\<close> does not follow
  symbolic links: to it a link is an entry that is not a directory, a \<open>File\<close> here.
\<close>

datatype node =
    File
  | Dir "(string \<times> node) list"
  | Unreadable goerror
  | Nostat goerror

fun IsDir :: "node \<Rightarrow> bool" where
  "IsDir (Dir es) = True"
| "IsDir (Unreadable e) = True"
| "IsDir File = False"
| "IsDir (Nostat e) = False"

text \<open>
  The calls of the program, as events of the trace.  \<open>EvRun\<close> is one child process:
  its program name, its arguments, and what \<open>cmd.Run()\<close> returned for it.
\<close>

datatype event =
    EvAbs path
  | EvOpen path
  | EvReaddir path
  | EvStat path
  | EvLstat path
  | EvMkdir path
  | EvRemove path
  | EvRemoveAll path
  | EvRun string "string list" "goerror option"
  | EvLookupEnv string
  | EvGetenv string
  | EvStdout string
  | EvStderr string
  | EvUsage

text \<open>
  The operating system.  A call that can fail returns the error (\<open>Inl\<close>, or \<open>Some\<close> for
  a call without a result); a call that changes the world returns the new world.
\<close>

record 'w os =
  os_Abs :: "'w \<Rightarrow> path \<Rightarrow> goerror + path"
  os_Open :: "'w \<Rightarrow> path \<Rightarrow> goerror option"
  os_Readdir :: "'w \<Rightarrow> path \<Rightarrow> goerror + string list"
  os_Stat :: "'w \<Rightarrow> path \<Rightarrow> goerror + node"
  os_Lstat :: "'w \<Rightarrow> path \<Rightarrow> goerror + node"
  os_Mkdir :: "'w \<Rightarrow> path \<Rightarrow> goerror option \<times> 'w"
  os_Remove :: "'w \<Rightarrow> path \<Rightarrow> goerror option \<times> 'w"
  os_RemoveAll :: "'w \<Rightarrow> path \<Rightarrow> goerror option \<times> 'w"
  os_Run :: "'w \<Rightarrow> string \<Rightarrow> string list \<Rightarrow> goerror option \<times> 'w"
  os_LookupEnv :: "'w \<Rightarrow> string \<Rightarrow> string option"

record 'w state =
  world :: 'w
  trace :: "event list"

definition log :: "event \<Rightarrow> 'w state \<Rightarrow> 'w state" where
  "log e s = s\<lparr>trace := trace s @ [e]\<rparr>"

subsection \<open>\<open>remove\<close>: the cleanup\<close>

text \<open>
  \<^verbatim>\<open>
  func remove(paths ...string) error {
      for _, s := range paths {
          f, err := os.Stat(s)
          if err != nil { return fmt.Errorf("could not stat file at '%v' due to error: %v\n", s, err) }
          if f.IsDir() {
              if err := os.RemoveAll(s); err != nil {
                  return fmt.Errorf("could not remove directory at '%v' due to error: %v\n", s, err)
              }
          } else if err := os.Remove(s); err != nil { return err }
      }
      return nil
  }
  \<close>
\<close>

fun remove_paths :: "'w os \<Rightarrow> path list \<Rightarrow> 'w state \<Rightarrow> goerror option \<times> 'w state" where
  "remove_paths sys [] s = (None, s)"
| "remove_paths sys (p # ps) s =
     (case os_Stat sys (world s) p of
        Inl err \<Rightarrow>
          (Some (''could not stat file at '' @ quoted p @ '' due to error: '' @ err @ nl),
           log (EvStat p) s)
      | Inr f \<Rightarrow>
          if IsDir f then
            (case os_RemoveAll sys (world s) p of
               (Some err, w') \<Rightarrow>
                 (Some (''could not remove directory at '' @ quoted p @ '' due to error: '' @ err @ nl),
                  log (EvRemoveAll p) (log (EvStat p) s)\<lparr>world := w'\<rparr>)
             | (None, w') \<Rightarrow>
                 remove_paths sys ps (log (EvRemoveAll p) (log (EvStat p) s)\<lparr>world := w'\<rparr>))
          else
            (case os_Remove sys (world s) p of
               (Some err, w') \<Rightarrow> (Some err, log (EvRemove p) (log (EvStat p) s)\<lparr>world := w'\<rparr>)
             | (None, w') \<Rightarrow>
                 remove_paths sys ps (log (EvRemove p) (log (EvStat p) s)\<lparr>world := w'\<rparr>)))"

subsection \<open>\<open>makeOutputDirs\<close>\<close>

text \<open>\<open>strings.Contains(s, substr)\<close>.\<close>

definition strings_Contains :: "string \<Rightarrow> string \<Rightarrow> bool" where
  "strings_Contains s substr =
     (\<exists>i \<in> set [0..<Suc (length s)]. take (length substr) (drop i s) = substr)"

text \<open>
  \<^verbatim>\<open>
  func makeOutputDirs(paths ...string) error {
      for _, s := range paths {
          if err := os.Mkdir(s, 0774); err != nil && !strings.Contains(err.Error(), "file exists") {
              return err
          }
      }
      return nil
  }
  \<close>
\<close>

fun makeOutputDirs :: "'w os \<Rightarrow> path list \<Rightarrow> 'w state \<Rightarrow> goerror option \<times> 'w state" where
  "makeOutputDirs sys [] s = (None, s)"
| "makeOutputDirs sys (p # ps) s =
     (case os_Mkdir sys (world s) p of
        (Some err, w') \<Rightarrow>
          if \<not> strings_Contains err ''file exists''
          then (Some err, log (EvMkdir p) s\<lparr>world := w'\<rparr>)
          else makeOutputDirs sys ps (log (EvMkdir p) s\<lparr>world := w'\<rparr>)
      | (None, w') \<Rightarrow> makeOutputDirs sys ps (log (EvMkdir p) s\<lparr>world := w'\<rparr>))"

subsection \<open>\<open>run\<close>: one external program\<close>

text \<open>
  \<^verbatim>\<open>
  func (t toolchain) run(command string) error {
      s := strings.Split(spaces.ReplaceAllString(command, " "), " ")
      cmd := exec.Command(s[0], s[1:]...)
      ...
      if err := cmd.Run(); err != nil {
          return fmt.Errorf("error when running command %v : %v\n", command, err)
      }
      return nil
  }
  \<close>
  \<open>cmd.Run()\<close> returns an error when the program cannot be started and when it exits
  with a status other than zero.  \<open>strings.Split\<close> never returns an empty slice, so
  \<open>s[0]\<close> is always there (\<open>strings_Split_not_Nil\<close> below).
\<close>

definition run :: "'w os \<Rightarrow> string \<Rightarrow> 'w state \<Rightarrow> goerror option \<times> 'w state" where
  "run sys command s =
     (let toks = strings_Split (spaces_ReplaceAllString command) in
      case os_Run sys (world s) (hd toks) (tl toks) of
        (Some err, w') \<Rightarrow>
          (Some (''error when running command '' @ command @ '' : '' @ err @ nl),
           log (EvRun (hd toks) (tl toks) (Some err)) s\<lparr>world := w'\<rparr>)
      | (None, w') \<Rightarrow> (None, log (EvRun (hd toks) (tl toks) None) s\<lparr>world := w'\<rparr>))"

subsection \<open>File discovery: \<open>filepath.Walk\<close> and \<open>findJavaSourceFiles\<close>\<close>

text \<open>
  \<open>filepath.Join\<close> joins the non-empty elements with a slash and cleans the result
  (\<open>filepath.Clean\<close>): repeated slashes and \<open>.\<close> elements go, a \<open>..\<close> element takes
  the element before it with it, and the empty result is \<open>.\<close>.
\<close>

fun split_slash :: "string \<Rightarrow> string list" where
  "split_slash [] = [[]]"
| "split_slash (c # cs) =
     (if c = CHR ''/'' then [] # split_slash cs
      else (case split_slash cs of
              [] \<Rightarrow> [[c]]
            | t # ts \<Rightarrow> (c # t) # ts))"

fun join_slash :: "string list \<Rightarrow> string" where
  "join_slash [] = []"
| "join_slash [x] = x"
| "join_slash (x # y # ys) = x @ ''/'' @ join_slash (y # ys)"

definition clean_step :: "bool \<Rightarrow> string list \<Rightarrow> string \<Rightarrow> string list" where
  "clean_step rooted out e =
     (if e = [] \<or> e = ''.'' then out
      else if e = ''..'' then
        (if out \<noteq> [] \<and> last out \<noteq> ''..'' then butlast out
         else if rooted then out
         else out @ [e])
      else out @ [e])"

definition filepath_Clean :: "path \<Rightarrow> path" where
  "filepath_Clean p =
     (let rooted = (p \<noteq> [] \<and> hd p = CHR ''/'');
          out = foldl (clean_step rooted) [] (split_slash p);
          r = (if rooted then ''/'' else []) @ join_slash out
      in if r = [] then ''.'' else r)"

definition filepath_Join :: "path \<Rightarrow> path \<Rightarrow> path" where
  "filepath_Join a b =
     (if a = [] \<and> b = [] then []
      else filepath_Clean (join_slash (filter (\<lambda>e. e \<noteq> []) [a, b])))"

text \<open>
  \<open>FileInfo.Name()\<close> of the root of a walk is the base name of the path: trailing
  slashes go, then everything up to the last slash.
\<close>

function strip_slashes :: "string \<Rightarrow> string" where
  "strip_slashes name =
     (if 1 < length name \<and> last name = CHR ''/'' then strip_slashes (butlast name) else name)"
  by pat_completeness auto
termination
  by (relation "measure length") auto

definition basename :: "path \<Rightarrow> string" where
  "basename name =
     (let n = strip_slashes name in
      if n = [] then []
      else rev (takeWhile (\<lambda>c. c \<noteq> CHR ''/'') (tl (rev n))) @ [last n])"

text \<open>
  The function given to \<open>filepath.Walk\<close>:
  \<^verbatim>\<open>
  func(path string, info os.FileInfo, err error) error {
      switch {
      case err != nil:      return err
      case info.IsDir():
      case javaFilename.MatchString(info.Name()): paths = append(paths, path)
      }
      return nil
  }
  \<close>
  \<open>paths\<close> is the variable it appends to; the model passes it in and out.
\<close>

definition walkFn :: "path \<Rightarrow> string \<Rightarrow> bool \<Rightarrow> goerror option \<Rightarrow> path list
    \<Rightarrow> path list \<times> goerror option" where
  "walkFn p name isdir err paths =
     (case err of
        Some e \<Rightarrow> (paths, Some e)
      | None \<Rightarrow>
          if isdir then (paths, None)
          else if javaFilename_MatchString name then (paths @ [p], None)
          else (paths, None))"

text \<open>
  \<open>filepath.Walk\<close>: the function is called for the root and for everything below it; the
  names of a directory are read and sorted, and each is examined and walked in that
  order.  An error the function returns ends the walk.
\<close>

function walk :: "path \<Rightarrow> string \<Rightarrow> node \<Rightarrow> path list \<Rightarrow> path list \<times> goerror option"
  and walk_names :: "path \<Rightarrow> (string \<times> node) list \<Rightarrow> path list \<Rightarrow> path list \<times> goerror option"
where
  "walk p name File paths = walkFn p name False None paths"
| "walk p name (Nostat e) paths = walkFn p name False (Some e) paths"
| "walk p name (Unreadable e) paths = walkFn p name True (Some e) paths"
| "walk p name (Dir es) paths =
     (case walkFn p name True None paths of
        (paths', Some e) \<Rightarrow> (paths', Some e)
      | (paths', None) \<Rightarrow> walk_names p (sort_key fst es) paths')"
| "walk_names p [] paths = (paths, None)"
| "walk_names p ((n, c) # es) paths =
     (case walk (filepath_Join p n) n c paths of
        (paths', Some e) \<Rightarrow> (paths', Some e)
      | (paths', None) \<Rightarrow> walk_names p es paths')"
  by pat_completeness auto
termination
proof -
  have ins: "size_list f (insort_key k x xs) = Suc (f x + size_list f xs)"
    for f :: "string \<times> node \<Rightarrow> nat" and k :: "string \<times> node \<Rightarrow> string" and x xs
    by (induction xs) auto
  have srt: "size_list f (sort_key k xs) = size_list f xs"
    for f :: "string \<times> node \<Rightarrow> nat" and k :: "string \<times> node \<Rightarrow> string" and xs
    by (induction xs) (auto simp: ins)
  show ?thesis
    by (relation "measure (\<lambda>x. case x of
            Inl (p, name, n, paths) \<Rightarrow> size n
          | Inr (p, es, paths) \<Rightarrow> size_list (size_prod (\<lambda>_. 0) size) es)")
       (auto simp: srt)
qed

text \<open>
  \<^verbatim>\<open>
  func findJavaSourceFiles(rootDir string) ([]string, error) {
      fmt.Println(rootDir)
      paths := make([]string, 0)
      err := filepath.Walk(rootDir, func ...)
      if err != nil {
          err = fmt.Errorf("received error when finding Java source files under '%v' : %v\n", rootDir, err)
      }
      return paths, err
  }
  \<close>
  \<open>filepath.Walk\<close> examines the root with \<open>Lstat\<close>; when that fails the function is
  called with the error, and returns it.
\<close>

definition findJavaSourceFiles :: "'w os \<Rightarrow> path \<Rightarrow> 'w state \<Rightarrow> (path list \<times> goerror option) \<times> 'w state" where
  "findJavaSourceFiles sys rootDir s =
     (let s1 = log (EvLstat rootDir) (log (EvStdout (rootDir @ nl)) s);
          (paths, err) =
            (case os_Lstat sys (world s) rootDir of
               Inl e \<Rightarrow> walkFn rootDir [] False (Some e) []
             | Inr n \<Rightarrow> walk rootDir (basename rootDir) n [])
      in case err of
           Some e \<Rightarrow>
             ((paths, Some (''received error when finding Java source files under '' @ quoted rootDir
                            @ '' : '' @ e @ nl)), s1)
         | None \<Rightarrow> ((paths, None), s1))"

subsection \<open>The toolchain and the seven steps\<close>

record toolchain =
  sdk :: string
  buildTools :: string
  platform :: string
  androidLib :: string
  aaptBin :: string
  dxBin :: string

definition empty_toolchain :: toolchain where
  "empty_toolchain = \<lparr>sdk = [], buildTools = [], platform = [], androidLib = [], aaptBin = [], dxBin = []\<rparr>"

text \<open>\<open>strings.Join(elems, " ")\<close>.\<close>

fun join_space :: "string list \<Rightarrow> string" where
  "join_space [] = []"
| "join_space [x] = x"
| "join_space (x # y # ys) = x @ '' '' @ join_space (y # ys)"

text \<open>The command line of each step, as its \<open>fmt.Sprintf\<close> builds it.\<close>

definition generate_command :: "toolchain \<Rightarrow> path \<Rightarrow> path \<Rightarrow> path \<Rightarrow> string" where
  "generate_command t J M S =
     aaptBin t @ '' package -f -m -J '' @ J @ '' -M '' @ M @ '' -S '' @ S @ '' -I '' @ androidLib t"

definition generateJavaFileForAndroidResources ::
    "'w os \<Rightarrow> toolchain \<Rightarrow> path \<Rightarrow> path \<Rightarrow> path \<Rightarrow> 'w state \<Rightarrow> goerror option \<times> 'w state" where
  "generateJavaFileForAndroidResources sys t outputDirForGeneratedSourceFiles' manifestFilepath resourcesFilepath s =
     run sys (generate_command t outputDirForGeneratedSourceFiles' manifestFilepath resourcesFilepath) s"

definition compile_command :: "toolchain \<Rightarrow> path \<Rightarrow> path \<Rightarrow> path \<Rightarrow> path list \<Rightarrow> string" where
  "compile_command t javaSourcesFilepath gen bytecode files =
     ''javac -classpath '' @ androidLib t @ '' -sourcepath '' @ (javaSourcesFilepath @ '':'' @ gen)
       @ '' -d '' @ bytecode @ '' -target 1.8 -source 1.8 '' @ join_space files"

definition compileJavaSourceFilesToJavaVirtualMachineBytecode ::
    "'w os \<Rightarrow> toolchain \<Rightarrow> path \<Rightarrow> path \<Rightarrow> path \<Rightarrow> 'w state \<Rightarrow> goerror option \<times> 'w state" where
  "compileJavaSourceFilesToJavaVirtualMachineBytecode sys t javaSourcesFilepath gen bytecode s =
     (case findJavaSourceFiles sys javaSourcesFilepath s of
        ((j, Some err), s1) \<Rightarrow>
          (Some (''could not find java source files to compile due to error: '' @ err), s1)
      | ((j, None), s1) \<Rightarrow>
          (case findJavaSourceFiles sys gen s1 of
             ((jj, Some err), s2) \<Rightarrow>
               (Some (''could not find java source files to compile due to error: '' @ err), s2)
           | ((jj, None), s2) \<Rightarrow>
               run sys (compile_command t javaSourcesFilepath gen bytecode (j @ jj)) s2))"

definition translate_command :: "toolchain \<Rightarrow> path \<Rightarrow> path \<Rightarrow> string" where
  "translate_command t dex bytecode =
     dxBin t @ '' --dex --min-sdk-version=26 --output '' @ dex @ '' '' @ bytecode"

definition translateJavaVirtualMachineMBytecodeToAndroidRuntimeBytecode ::
    "'w os \<Rightarrow> toolchain \<Rightarrow> path \<Rightarrow> path \<Rightarrow> 'w state \<Rightarrow> goerror option \<times> 'w state" where
  "translateJavaVirtualMachineMBytecodeToAndroidRuntimeBytecode sys t dex bytecode s =
     run sys (translate_command t dex bytecode) s"

definition package_command :: "toolchain \<Rightarrow> path \<Rightarrow> path \<Rightarrow> path \<Rightarrow> string" where
  "package_command t manifest xml unaligned =
     aaptBin t @ '' package -f -M '' @ manifest @ '' -S '' @ xml @ '' -I '' @ androidLib t
       @ '' -F '' @ unaligned"

definition createUnalignedAndroidApplicationPackage ::
    "'w os \<Rightarrow> toolchain \<Rightarrow> path \<Rightarrow> path \<Rightarrow> path \<Rightarrow> 'w state \<Rightarrow> goerror option \<times> 'w state" where
  "createUnalignedAndroidApplicationPackage sys t manifest xml unaligned s =
     run sys (package_command t manifest xml unaligned) s"

definition add_command :: "toolchain \<Rightarrow> path \<Rightarrow> path \<Rightarrow> string" where
  "add_command t unaligned dex = aaptBin t @ '' add '' @ unaligned @ '' '' @ dex"

definition addAndroidRuntimeBytecodeToAndroidApplicationPackage ::
    "'w os \<Rightarrow> toolchain \<Rightarrow> path \<Rightarrow> path \<Rightarrow> 'w state \<Rightarrow> goerror option \<times> 'w state" where
  "addAndroidRuntimeBytecodeToAndroidApplicationPackage sys t unaligned dex s =
     run sys (add_command t unaligned dex) s"

text \<open>\<open>os.Getenv\<close> gives the empty string for a variable that is not set.\<close>

definition Getenv :: "'w os \<Rightarrow> 'w \<Rightarrow> string \<Rightarrow> string" where
  "Getenv sys w k = (case os_LookupEnv sys w k of None \<Rightarrow> [] | Some v \<Rightarrow> v)"

definition sign_command :: "string \<Rightarrow> path \<Rightarrow> string" where
  "sign_command home unaligned =
     ''jarsigner -keystore '' @ home @ ''/.android/debug.keystore -storepass android '' @ unaligned
       @ '' androiddebugkey''"

definition signAndroidApplicationPackageWithDebugKey ::
    "'w os \<Rightarrow> toolchain \<Rightarrow> path \<Rightarrow> 'w state \<Rightarrow> goerror option \<times> 'w state" where
  "signAndroidApplicationPackageWithDebugKey sys t unaligned s =
     run sys (sign_command (Getenv sys (world s) ''HOME'') unaligned) (log (EvGetenv ''HOME'') s)"

definition align_command :: "toolchain \<Rightarrow> path \<Rightarrow> path \<Rightarrow> string" where
  "align_command t unaligned apk = (buildTools t @ ''/zipalign'') @ '' -f 4 '' @ unaligned @ '' '' @ apk"

definition alignUncompressedDataInZipFileToFourByteBoundariesForFasterMemoryMappingAtRuntime ::
    "'w os \<Rightarrow> toolchain \<Rightarrow> path \<Rightarrow> path \<Rightarrow> 'w state \<Rightarrow> goerror option \<times> 'w state" where
  "alignUncompressedDataInZipFileToFourByteBoundariesForFasterMemoryMappingAtRuntime sys t unaligned apk s =
     run sys (align_command t unaligned apk) s"

subsection \<open>Toolchain resolution\<close>

text \<open>
  \<open>initBuildTools\<close> and \<open>initPlatforms\<close> write the fields of the toolchain through a
  pointer; the model returns the toolchain with the error.  An assignment
  \<open>t.f, err = filepath.Abs(p)\<close> stores the empty string when \<open>Abs\<close> fails.
  \<open>ff[len(ff) - 1]\<close> is read only after the check \<open>len(ff) < 1\<close>.
\<close>

definition initBuildTools :: "'w os \<Rightarrow> toolchain \<Rightarrow> 'w state \<Rightarrow> (toolchain \<times> goerror option) \<times> 'w state" where
  "initBuildTools sys t s =
     (let p = sdk t @ ''/build-tools''; s1 = log (EvAbs p) s in
      case os_Abs sys (world s) p of
        Inl err \<Rightarrow>
          ((t, Some (''no build-tools directory found under '' @ quoted p @ '' due to error: '' @ err)), s1)
      | Inr _ \<Rightarrow>
     (let s2 = log (EvOpen p) s1 in
      case os_Open sys (world s) p of
        Some err \<Rightarrow>
          ((t, Some (''could not find build-tools found under '' @ quoted p @ '' due to error: '' @ err)), s2)
      | None \<Rightarrow>
     (let s3 = log (EvReaddir p) s2 in
      case os_Readdir sys (world s) p of
        Inl err \<Rightarrow>
          ((t, Some (''could not read build-tools dir under '' @ quoted p @ '' due to error: '' @ err)), s3)
      | Inr ff \<Rightarrow>
          if length ff < 1 then
            ((t, Some (''no build tools found under '' @ quoted (show_nat (length ff)))), s3)
          else
     (let indexOfMostRecentBuildToolsVersion = length ff - 1;
          q = p @ ''/'' @ ff ! indexOfMostRecentBuildToolsVersion;
          s4 = log (EvAbs q) s3 in
      case os_Abs sys (world s) q of
        Inl err \<Rightarrow>
          ((t\<lparr>buildTools := []\<rparr>,
            Some (''received error when selecting most modern build-tools version: '' @ quoted err)), s4)
      | Inr b \<Rightarrow>
     (let t1 = t\<lparr>buildTools := b\<rparr>; pa = buildTools t1 @ ''/aapt''; s5 = log (EvAbs pa) s4 in
      case os_Abs sys (world s) pa of
        Inl err \<Rightarrow>
          ((t1\<lparr>aaptBin := []\<rparr>,
            Some (''could not find aapt binary at path '' @ quoted pa @ '' due to error: '' @ quoted err)), s5)
      | Inr a \<Rightarrow>
     (let t2 = t1\<lparr>aaptBin := a\<rparr>; pd = buildTools t2 @ ''/dx''; s6 = log (EvAbs pd) s5 in
      case os_Abs sys (world s) pd of
        Inl err \<Rightarrow>
          ((t2\<lparr>dxBin := []\<rparr>,
            Some (''could not find dx binary at path '' @ quoted pd @ '' due to error: '' @ quoted err)), s6)
      | Inr d \<Rightarrow> ((t2\<lparr>dxBin := d\<rparr>, None), s6)))))))"

definition initPlatforms :: "'w os \<Rightarrow> toolchain \<Rightarrow> 'w state \<Rightarrow> (toolchain \<times> goerror option) \<times> 'w state" where
  "initPlatforms sys t s =
     (let p = sdk t @ ''/platforms''; s1 = log (EvAbs p) s in
      case os_Abs sys (world s) p of
        Inl err \<Rightarrow>
          ((t, Some (''no valid platform found under '' @ quoted p @ '' due to error: '' @ err)), s1)
      | Inr _ \<Rightarrow>
     (let s2 = log (EvOpen p) s1 in
      case os_Open sys (world s) p of
        Some err \<Rightarrow>
          ((t, Some (''could not find platforms under '' @ quoted p @ '' due to error: '' @ err)), s2)
      | None \<Rightarrow>
     (let s3 = log (EvReaddir p) s2 in
      case os_Readdir sys (world s) p of
        Inl err \<Rightarrow>
          ((t, Some (''could not find platforms under '' @ quoted p @ '' due to error: '' @ err)), s3)
      | Inr ff \<Rightarrow>
          if length ff < 1 then
            ((t, Some (''no contents found in platform dir found under '' @ quoted p)), s3)
          else
     (let indexOfMostRecentPlatformVersion = length ff - 1;
          q = p @ ''/'' @ ff ! indexOfMostRecentPlatformVersion;
          s4 = log (EvAbs q) s3 in
      case os_Abs sys (world s) q of
        Inl err \<Rightarrow>
          ((t\<lparr>platform := []\<rparr>,
            Some (''received error when selecting most modern platform: '' @ quoted err)), s4)
      | Inr b \<Rightarrow>
     (let t1 = t\<lparr>platform := b\<rparr>; pl = platform t1 @ ''/android.jar''; s5 = log (EvAbs pl) s4 in
      case os_Abs sys (world s) pl of
        Inl err \<Rightarrow>
          ((t1\<lparr>androidLib := []\<rparr>,
            Some (''could not find android.jar library at path '' @ quoted pl @ '' due to error: ''
                  @ quoted err)), s5)
      | Inr a \<Rightarrow> ((t1\<lparr>androidLib := a\<rparr>, None), s5))))))"

definition hint :: "string \<Rightarrow> string" where
  "hint SDKPath =
     nl @ ''Are all the build-tools and platforms required to build an android app installed via sdkmanager?''
     @ nl @ nl @ ''To list installed and installable versions, try:'' @ nl
     @ ''$ '' @ SDKPath @ ''/tools/bin/sdkmanager --list'' @ nl @ nl
     @ ''To install build-tools and platforms, try:'' @ nl
     @ ''$ '' @ SDKPath @ ''/tools/bin/sdkmanager --install '' @ quoted ''build-tools;28.0.3'' @ '' ''
     @ quoted ''platforms;android-28'' @ nl"

definition newToolchain :: "'w os \<Rightarrow> string \<Rightarrow> 'w state \<Rightarrow> (toolchain \<times> goerror option) \<times> 'w state" where
  "newToolchain sys SDKPath s =
     (let t = empty_toolchain; s1 = log (EvAbs SDKPath) s in
      case os_Abs sys (world s) SDKPath of
        Inl err \<Rightarrow>
          ((t\<lparr>sdk := []\<rparr>,
            Some (''no valid directory has been found as $ANDROID_HOME due to error: '' @ err)), s1)
      | Inr a \<Rightarrow>
     (let t1 = t\<lparr>sdk := a\<rparr>; p = sdk t1 @ ''/tools''; s2 = log (EvAbs p) s1 in
      case os_Abs sys (world s) p of
        Inl err \<Rightarrow>
          ((t1, Some ((''could not find tools directory due to error: '' @ err) @ nl
                      @ ''this may mean the Android SDK has not been installed'' @ nl
                      @ ''visit developer.android.com to install command-line-only dev tools'')), s2)
      | Inr _ \<Rightarrow>
     (case initBuildTools sys t1 s2 of
        ((t2, Some err), s3) \<Rightarrow> ((t2, Some (err @ nl @ hint SDKPath)), s3)
      | ((t2, None), s3) \<Rightarrow>
     (case initPlatforms sys t2 s3 of
        ((t3, Some err), s4) \<Rightarrow> ((t3, Some (err @ nl @ hint SDKPath)), s4)
      | ((t3, None), s4) \<Rightarrow> ((t3, None), s4)))))"

subsection \<open>\<open>main\<close>\<close>

text \<open>The flags after \<open>flag.Parse()\<close>, and their defaults.\<close>

record args =
  androidHome :: string
  androidManifestFilepath :: string
  xmlResourcesFilepath :: string
  javaSourcesFilepath :: string
  outputDir :: string

definition default_args :: args where
  "default_args = \<lparr>androidHome = [], androidManifestFilepath = ''AndroidManifest.xml'',
     xmlResourcesFilepath = ''xml'', javaSourcesFilepath = ''java'', outputDir = []\<rparr>"

text \<open>\<open>fmt.Fprintf(os.Stderr, msg); os.Exit(1)\<close>: the process ends with status 1.\<close>

definition fatal :: "string \<Rightarrow> 'w state \<Rightarrow> nat \<times> 'w state" where
  "fatal msg s = (1, log (EvStderr msg) s)"

text \<open>
  \<open>main\<close> gives the exit status of the process and the final state.  A \<open>main\<close> that
  returns ends the process with status 0.  The function is long, so the model writes it in
  two parts: \<open>main_setup\<close> is lines 31 to 84 of build.go (the flags, the SDK location, the
  toolchain, the temporary directories) and either ends the process or hands over the
  toolchain and the flags; \<open>main_pipeline\<close> is lines 85 to 126 (the seven steps and the
  cleanup).  The value of the last call, \<open>remove(...)\<close>, is not looked at.
\<close>

definition tmpDirs :: "path list" where
  "tmpDirs = [outputDirForGeneratedSourceFiles, outputDirForBytecode]"

definition main_setup :: "'w os \<Rightarrow> args \<Rightarrow> 'w state \<Rightarrow> (nat \<times> 'w state) + (toolchain \<times> args \<times> 'w state)" where
  "main_setup sys a0 s0 =
     (let s = log (EvStdout (''aoeu '' @ javaSourcesFilepath a0 @ '' '' @ xmlResourcesFilepath a0 @ nl)) s0;
          env = (if androidHome a0 = [] then Some (os_LookupEnv sys (world s) ''ANDROID_HOME'') else None);
          s = (if androidHome a0 = [] then log (EvLookupEnv ''ANDROID_HOME'') s else s)
      in
      if env = Some None then
        Inl (1, log EvUsage (log (EvStderr (''ANDROID_HOME must be set as an environment variable or the SDK location must be provided manually as a flag'' @ nl)) s))
      else if env = Some (Some []) then
        Inl (1, log EvUsage (log (EvStderr (''ANDROID_HOME is set as an empty enviroment variable and must be non-empty, or the SDK location must be provided manually as a flag'' @ nl)) s))
      else
     (let a1 = (case env of Some (Some v) \<Rightarrow> a0\<lparr>androidHome := v\<rparr> | _ \<Rightarrow> a0);
          s = log (EvAbs (androidManifestFilepath a1)) s in
      case os_Abs sys (world s) (androidManifestFilepath a1) of
        Inl err \<Rightarrow>
          Inl (fatal (''could not find AndroidManifest.xml at filepath '' @ quoted (androidManifestFilepath a1)
                 @ '' due to error: '' @ quoted err @ nl) s)
      | Inr p \<Rightarrow>
     (let a2 = a1\<lparr>androidManifestFilepath := p\<rparr>;
          s = log (EvAbs (outputDir a2)) s in
      case os_Abs sys (world s) (outputDir a2) of
        Inl err \<Rightarrow>
          Inl (fatal (''could not locate output directory at filepath '' @ quoted (outputDir a2)
                 @ '' due to error: '' @ err @ nl) s)
      | Inr p \<Rightarrow>
     (let a = a2\<lparr>outputDir := p\<rparr> in
      case newToolchain sys (androidHome a) s of
        ((t, Some err), s) \<Rightarrow> Inl (fatal (''could not ascertain toolchain due to error: '' @ err @ nl) s)
      | ((t, None), s) \<Rightarrow>
     (case makeOutputDirs sys tmpDirs s of
        (Some err, s) \<Rightarrow> Inl (fatal (''could not create output directories due to error: '' @ err @ nl) s)
      | (None, s) \<Rightarrow> Inr (t, a, s))))))"

definition main_pipeline :: "'w os \<Rightarrow> toolchain \<Rightarrow> args \<Rightarrow> 'w state \<Rightarrow> nat \<times> 'w state" where
  "main_pipeline sys t a s =
     (case generateJavaFileForAndroidResources sys t
             (outputDir a @ ''/'' @ outputDirForGeneratedSourceFiles)
             (androidManifestFilepath a) (xmlResourcesFilepath a) s of
        (Some err, s) \<Rightarrow>
          fatal (''could not create Java file from Android XML resources files due to error: '' @ err @ nl) s
      | (None, s) \<Rightarrow>
     (case compileJavaSourceFilesToJavaVirtualMachineBytecode sys t (javaSourcesFilepath a)
             outputDirForGeneratedSourceFiles outputDirForBytecode s of
        (Some err, s) \<Rightarrow>
          fatal (''could not compile java source files to bytecode due to error: '' @ err @ nl) s
      | (None, s) \<Rightarrow>
     (case translateJavaVirtualMachineMBytecodeToAndroidRuntimeBytecode sys t
             outputDexFilepath outputDirForBytecode s of
        (Some err, s) \<Rightarrow> fatal (''could not translate bytecode with dexer due to error: '' @ err @ nl) s
      | (None, s) \<Rightarrow>
     (case createUnalignedAndroidApplicationPackage sys t (androidManifestFilepath a)
             (xmlResourcesFilepath a) filepathOfUnalignedAPK s of
        (Some err, s) \<Rightarrow> fatal (''could not create unaligned APK file due to error: '' @ err @ nl) s
      | (None, s) \<Rightarrow>
     (case addAndroidRuntimeBytecodeToAndroidApplicationPackage sys t
             filepathOfUnalignedAPK outputDexFilepath s of
        (Some err, s) \<Rightarrow>
          fatal (''could not add android runtime bytecode to APK due to error: '' @ err @ nl) s
      | (None, s) \<Rightarrow>
     (case signAndroidApplicationPackageWithDebugKey sys t filepathOfUnalignedAPK s of
        (Some err, s) \<Rightarrow> fatal (''could not sign APK due to error: '' @ err @ nl) s
      | (None, s) \<Rightarrow>
     (case alignUncompressedDataInZipFileToFourByteBoundariesForFasterMemoryMappingAtRuntime sys t
             filepathOfUnalignedAPK filepathOfAPK s of
        (Some err, s) \<Rightarrow> fatal (''Could align bytes of APK file due to error: '' @ err @ nl) s
      | (None, s) \<Rightarrow>
     (case remove_paths sys ([outputDexFilepath, filepathOfUnalignedAPK] @ tmpDirs) s of
        (_, s) \<Rightarrow> (0, s)))))))))"

definition main :: "'w os \<Rightarrow> args \<Rightarrow> 'w state \<Rightarrow> nat \<times> 'w state" where
  "main sys a0 s0 =
     (case main_setup sys a0 s0 of
        Inl exited \<Rightarrow> exited
      | Inr (t, a, s) \<Rightarrow> main_pipeline sys t a s)"

subsection \<open>The shape of a trace\<close>

text \<open>
  Notions for the statements about whole runs.  An event is a failed run when it is a child
  process for which \<open>cmd.Run()\<close> returned an error; a list of events is quiet when none
  of them is.  A state extends another when its trace is the other's followed by quiet
  events.  \<open>seq\<close> runs steps in order, each with the message \<open>main\<close> prints when the
  step fails, and \<open>pipeline_steps\<close> are the seven steps of \<open>main_pipeline\<close> with their
  messages (\<open>main_pipeline_seq\<close> below proves that this is what \<open>main_pipeline\<close> does).
\<close>

fun failed :: "event \<Rightarrow> bool" where
  "failed (EvRun p argv (Some err)) = True"
| "failed e = False"

definition quiet :: "event list \<Rightarrow> bool" where
  "quiet evs = list_all (\<lambda>e. \<not> failed e) evs"

definition extends :: "'w state \<Rightarrow> 'w state \<Rightarrow> bool" where
  "extends s s' = (\<exists>evs. trace s' = trace s @ evs \<and> quiet evs)"

definition failed_last :: "'w state \<Rightarrow> 'w state \<Rightarrow> bool" where
  "failed_last s s' =
     (\<exists>pre p argv err. trace s' = trace s @ pre @ [EvRun p argv (Some err)] \<and> quiet pre)"

definition step_ok :: "('w state \<Rightarrow> goerror option \<times> 'w state) \<Rightarrow> bool" where
  "step_ok f = (\<forall>s r s'. f s = (r, s') \<longrightarrow>
      (r = None \<longrightarrow> extends s s') \<and> (r \<noteq> None \<longrightarrow> extends s s' \<or> failed_last s s'))"

fun seq :: "(string \<times> ('w state \<Rightarrow> goerror option \<times> 'w state)) list \<Rightarrow> 'w state
    \<Rightarrow> (nat \<times> 'w state) + 'w state" where
  "seq [] s = Inr s"
| "seq ((m, f) # fs) s =
     (case f s of
        (Some err, s1) \<Rightarrow> Inl (fatal (m @ err @ nl) s1)
      | (None, s1) \<Rightarrow> seq fs s1)"


definition shape :: "nat \<Rightarrow> event list \<Rightarrow> bool" where
  "shape code evs =
     (quiet evs \<or>
      (\<exists>pre p argv err msg. evs = pre @ [EvRun p argv (Some err), EvStderr msg] \<and> quiet pre \<and> code = 1))"


definition pipeline_steps :: "'w os \<Rightarrow> toolchain \<Rightarrow> args
    \<Rightarrow> (string \<times> ('w state \<Rightarrow> goerror option \<times> 'w state)) list" where
  "pipeline_steps sys t a =
     [(''could not create Java file from Android XML resources files due to error: '',
       generateJavaFileForAndroidResources sys t (outputDir a @ ''/'' @ outputDirForGeneratedSourceFiles)
         (androidManifestFilepath a) (xmlResourcesFilepath a)),
      (''could not compile java source files to bytecode due to error: '',
       compileJavaSourceFilesToJavaVirtualMachineBytecode sys t (javaSourcesFilepath a)
         outputDirForGeneratedSourceFiles outputDirForBytecode),
      (''could not translate bytecode with dexer due to error: '',
       translateJavaVirtualMachineMBytecodeToAndroidRuntimeBytecode sys t outputDexFilepath outputDirForBytecode),
      (''could not create unaligned APK file due to error: '',
       createUnalignedAndroidApplicationPackage sys t (androidManifestFilepath a)
         (xmlResourcesFilepath a) filepathOfUnalignedAPK),
      (''could not add android runtime bytecode to APK due to error: '',
       addAndroidRuntimeBytecodeToAndroidApplicationPackage sys t filepathOfUnalignedAPK outputDexFilepath),
      (''could not sign APK due to error: '',
       signAndroidApplicationPackageWithDebugKey sys t filepathOfUnalignedAPK),
      (''Could align bytes of APK file due to error: '',
       alignUncompressedDataInZipFileToFourByteBoundariesForFasterMemoryMappingAtRuntime sys t
         filepathOfUnalignedAPK filepathOfAPK)]"

subsection \<open>What file discovery is to return\<close>

text \<open>
  These definitions follow the words of the specification, not the code.  The Java source
  files of a tree are its entries that are not directories and whose name ends in
  \<open>.java\<close>, each under the path at which the walk reaches it.
\<close>

fun java_entries :: "path \<Rightarrow> string \<Rightarrow> node \<Rightarrow> path set"
  and java_entries_in :: "path \<Rightarrow> (string \<times> node) list \<Rightarrow> path set"
where
  "java_entries p name File = (if suffix ''.java'' name then {p} else {})"
| "java_entries p name (Dir es) = java_entries_in p es"
| "java_entries p name (Unreadable e) = {}"
| "java_entries p name (Nostat e) = {}"
| "java_entries_in p [] = {}"
| "java_entries_in p ((n, c) # es) = java_entries (filepath_Join p n) n c \<union> java_entries_in p es"

text \<open>A tree is readable when no node of it fails.\<close>

fun readable :: "node \<Rightarrow> bool"
  and readable_in :: "(string \<times> node) list \<Rightarrow> bool"
where
  "readable File = True"
| "readable (Dir es) = readable_in es"
| "readable (Unreadable e) = False"
| "readable (Nostat e) = False"
| "readable_in [] = True"
| "readable_in ((n, c) # es) = (readable c \<and> readable_in es)"

text \<open>
  Two trees are the same directory tree, listed in different orders, when they agree once
  the entries of every directory are put in ascending order of their names.
\<close>

fun canon :: "node \<Rightarrow> node"
  and canon_in :: "(string \<times> node) list \<Rightarrow> (string \<times> node) list"
where
  "canon (Dir es) = Dir (sort_key fst (canon_in es))"
| "canon File = File"
| "canon (Unreadable e) = Unreadable e"
| "canon (Nostat e) = Nostat e"
| "canon_in [] = []"
| "canon_in ((n, c) # es) = (n, canon c) # canon_in es"

text \<open>The Java source files of a tree, each directory taken in the order of its listing.\<close>

fun preorder :: "path \<Rightarrow> string \<Rightarrow> node \<Rightarrow> path list"
  and preorder_in :: "path \<Rightarrow> (string \<times> node) list \<Rightarrow> path list"
where
  "preorder p name File = (if suffix ''.java'' name then [p] else [])"
| "preorder p name (Dir es) = preorder_in p es"
| "preorder p name (Unreadable e) = []"
| "preorder p name (Nostat e) = []"
| "preorder_in p [] = []"
| "preorder_in p ((n, c) # es) = preorder (filepath_Join p n) n c @ preorder_in p es"

subsection \<open>A small operating system, for concrete runs\<close>

text \<open>
  The theorems below hold for every operating system.  To run the program on concrete
  inputs, here is one: a file system that is a single tree, a working directory, an
  environment, for each external program whether it fails and which files it leaves
  behind when it succeeds, and the paths that may not be removed (permission denied).
\<close>

record toy =
  toy_root :: node
  toy_cwd :: path
  toy_env :: "(string \<times> string) list"
  toy_failing :: "string list"
  toy_writes :: "(string \<times> (path \<times> node) list) list"
  toy_locked :: "path list"

definition IsAbs :: "path \<Rightarrow> bool" where
  "IsAbs p = (p \<noteq> [] \<and> hd p = CHR ''/'')"

definition toy_abs :: "toy \<Rightarrow> path \<Rightarrow> path" where
  "toy_abs w p = (if IsAbs p then filepath_Clean p else filepath_Join (toy_cwd w) p)"

definition components :: "toy \<Rightarrow> path \<Rightarrow> string list" where
  "components w p = filter (\<lambda>e. e \<noteq> []) (split_slash (toy_abs w p))"

primrec lookup_node :: "string list \<Rightarrow> node \<Rightarrow> node option" where
  "lookup_node [] n = Some n"
| "lookup_node (c # cs) n =
     (case n of
        Dir es \<Rightarrow> (case map_of es c of None \<Rightarrow> None | Some m \<Rightarrow> lookup_node cs m)
      | _ \<Rightarrow> None)"

definition set_entry :: "string \<Rightarrow> node \<Rightarrow> (string \<times> node) list \<Rightarrow> (string \<times> node) list" where
  "set_entry c m es =
     (if c \<in> set (map fst es) then map (\<lambda>(k, v). if k = c then (k, m) else (k, v)) es
      else es @ [(c, m)])"

primrec put_node :: "string list \<Rightarrow> node \<Rightarrow> node \<Rightarrow> node" where
  "put_node [] new n = new"
| "put_node (c # cs) new n =
     (case n of
        Dir es \<Rightarrow>
          (case map_of es c of
             None \<Rightarrow> if cs = [] then Dir (set_entry c new es) else n
           | Some m \<Rightarrow> Dir (set_entry c (put_node cs new m) es))
      | _ \<Rightarrow> n)"

primrec delete_node :: "string list \<Rightarrow> node \<Rightarrow> node" where
  "delete_node [] n = n"
| "delete_node (c # cs) n =
     (case n of
        Dir es \<Rightarrow>
          if cs = [] then Dir (filter (\<lambda>(k, v). k \<noteq> c) es)
          else (case map_of es c of
                  None \<Rightarrow> n
                | Some m \<Rightarrow> Dir (set_entry c (delete_node cs m) es))
      | _ \<Rightarrow> n)"

definition toy_lookup :: "toy \<Rightarrow> path \<Rightarrow> node option" where
  "toy_lookup w p = (if p = [] then None else lookup_node (components w p) (toy_root w))"

definition exists_at :: "toy \<Rightarrow> path \<Rightarrow> bool" where
  "exists_at w p = (toy_lookup w p \<noteq> None)"

definition toy_stat :: "string \<Rightarrow> toy \<Rightarrow> path \<Rightarrow> goerror + node" where
  "toy_stat call w p =
     (case toy_lookup w p of
        None \<Rightarrow> Inl (call @ '' '' @ p @ '': no such file or directory'')
      | Some n \<Rightarrow> Inr n)"

definition toy_readdir :: "toy \<Rightarrow> path \<Rightarrow> goerror + string list" where
  "toy_readdir w p =
     (case toy_lookup w p of
        Some (Dir es) \<Rightarrow> Inr (map fst es)
      | _ \<Rightarrow> Inl (''readdirent '' @ p @ '': not a directory''))"

definition toy_mkdir :: "toy \<Rightarrow> path \<Rightarrow> goerror option \<times> toy" where
  "toy_mkdir w p =
     (if exists_at w p then (Some (''mkdir '' @ p @ '': file exists''), w)
      else (case lookup_node (butlast (components w p)) (toy_root w) of
              Some (Dir es) \<Rightarrow> (None, w\<lparr>toy_root := put_node (components w p) (Dir []) (toy_root w)\<rparr>)
            | _ \<Rightarrow> (Some (''mkdir '' @ p @ '': no such file or directory''), w)))"

definition toy_remove :: "toy \<Rightarrow> path \<Rightarrow> goerror option \<times> toy" where
  "toy_remove w p =
     (if p \<in> set (toy_locked w) then (Some (''remove '' @ p @ '': permission denied''), w) else
      case toy_lookup w p of
        None \<Rightarrow> (Some (''remove '' @ p @ '': no such file or directory''), w)
      | Some (Dir (e # es)) \<Rightarrow> (Some (''remove '' @ p @ '': directory not empty''), w)
      | Some n \<Rightarrow> (None, w\<lparr>toy_root := delete_node (components w p) (toy_root w)\<rparr>))"

definition toy_removeAll :: "toy \<Rightarrow> path \<Rightarrow> goerror option \<times> toy" where
  "toy_removeAll w p =
     (if p \<in> set (toy_locked w) then (Some (''unlinkat '' @ p @ '': permission denied''), w)
      else (None, w\<lparr>toy_root := delete_node (components w p) (toy_root w)\<rparr>))"

definition toy_run :: "toy \<Rightarrow> string \<Rightarrow> string list \<Rightarrow> goerror option \<times> toy" where
  "toy_run w prog argv =
     (if prog \<in> set (toy_failing w) then (Some ''exit status 1'', w)
      else (case map_of (toy_writes w) prog of
              None \<Rightarrow> (None, w)
            | Some files \<Rightarrow>
                (None, w\<lparr>toy_root := foldl (\<lambda>r (p, n). put_node (components w p) n r) (toy_root w) files\<rparr>)))"

definition toy_os :: "toy os" where
  "toy_os = \<lparr>
     os_Abs = (\<lambda>w p. Inr (toy_abs w p)),
     os_Open = (\<lambda>w p. if exists_at w p then None else Some (''open '' @ p @ '': no such file or directory'')),
     os_Readdir = toy_readdir,
     os_Stat = toy_stat ''stat'',
     os_Lstat = toy_stat ''lstat'',
     os_Mkdir = toy_mkdir,
     os_Remove = toy_remove,
     os_RemoveAll = toy_removeAll,
     os_Run = toy_run,
     os_LookupEnv = (\<lambda>w k. map_of (toy_env w) k)\<rparr>"

definition start :: "'w \<Rightarrow> 'w state" where
  "start w = \<lparr>world = w, trace = []\<rparr>"

subsection \<open>Concrete worlds\<close>

text \<open>A working directory in the middle of a cleanup: the unaligned archive is not there.\<close>

definition w_cleanup :: toy where
  "w_cleanup = \<lparr>toy_root = Dir [(''work'', Dir [(''classes.dex'', File),
                                                  (''generated_java_sources'', Dir [(''R.java'', File)])])],
      toy_cwd = ''/work'', toy_env = [], toy_failing = [], toy_writes = [], toy_locked = []\<rparr>"

definition w_cleanup1 :: toy where
  "w_cleanup1 = w_cleanup\<lparr>toy_root := Dir [(''work'', Dir [(''generated_java_sources'', Dir [(''R.java'', File)])])]\<rparr>"

definition s_cleanup1 :: "toy state" where
  "s_cleanup1 = \<lparr>world = w_cleanup1, trace = [EvStat ''classes.dex'', EvRemove ''classes.dex'']\<rparr>"


text \<open>
  SDK roots for toolchain resolution: \<open>/sdk\<close> with the given entries of
  \<open>build-tools\<close> and \<open>platforms\<close>, in the order in which the directories list them.
\<close>

definition sdk_with :: "(string \<times> node) list \<Rightarrow> (string \<times> node) list \<Rightarrow> toy" where
  "sdk_with build_tools platforms =
     \<lparr>toy_root = Dir [(''sdk'', Dir [(''build-tools'', Dir build_tools),
                                     (''platforms'', Dir platforms),
                                     (''tools'', Dir [])]),
                      (''work'', Dir [])],
      toy_cwd = ''/work'', toy_env = [], toy_failing = [], toy_writes = [], toy_locked = []\<rparr>"

definition version_dir :: node where
  "version_dir = Dir [(''aapt'', File), (''dx'', File), (''zipalign'', File)]"

definition platform_dir :: node where
  "platform_dir = Dir [(''android.jar'', File)]"

definition w_sorted :: toy where
  "w_sorted = sdk_with [(''28.0.3'', version_dir), (''29.0.2'', version_dir), (''30.0.1'', version_dir)]
                       [(''android-28'', platform_dir), (''android-29'', platform_dir)]"

definition w_unsorted :: toy where
  "w_unsorted = sdk_with [(''30.0.1'', version_dir), (''28.0.3'', version_dir), (''29.0.2'', version_dir)]
                         [(''android-29'', platform_dir), (''android-28'', platform_dir)]"

definition w_no_build_tools :: toy where
  "w_no_build_tools = sdk_with [] [(''android-28'', platform_dir)]"

definition w_hollow :: toy where
  "w_hollow = sdk_with [(''28.0.3'', Dir [])] [(''android-28'', Dir [])]"

text \<open>
  A project in \<open>/work\<close> with an SDK in \<open>/sdk\<close>, for a given tree of Java sources; the
  first tree is the example of the specification.
\<close>

definition toolchain_28 :: toolchain where
  "toolchain_28 = \<lparr>sdk = ''/sdk'', buildTools = ''/sdk/build-tools/28.0.3'',
     platform = ''/sdk/platforms/android-28'', androidLib = ''/sdk/platforms/android-28/android.jar'',
     aaptBin = ''/sdk/build-tools/28.0.3/aapt'', dxBin = ''/sdk/build-tools/28.0.3/dx''\<rparr>"

definition sdk_28 :: node where
  "sdk_28 = Dir [(''build-tools'', Dir [(''28.0.3'', Dir [(''aapt'', File), (''dx'', File), (''zipalign'', File)])]),
                 (''platforms'', Dir [(''android-28'', Dir [(''android.jar'', File)])]),
                 (''tools'', Dir [])]"

definition java_tree :: node where
  "java_tree = Dir [(''A.java'', File), (''b.txt'', File), (''sub'', Dir [(''C.java'', File)])]"

definition java_tree_listed_otherwise :: node where
  "java_tree_listed_otherwise = Dir [(''sub'', Dir [(''C.java'', File)]), (''b.txt'', File), (''A.java'', File)]"

definition java_tree_unreadable :: node where
  "java_tree_unreadable =
     Dir [(''A.java'', File), (''sub'', Unreadable ''open java/sub: permission denied'')]"

definition project :: "node \<Rightarrow> toy" where
  "project java =
     \<lparr>toy_root = Dir [(''sdk'', sdk_28),
                      (''work'', Dir [(''AndroidManifest.xml'', File), (''xml'', Dir []), (''java'', java)])],
      toy_cwd = ''/work'',
      toy_env = [(''ANDROID_HOME'', ''/sdk''), (''HOME'', ''/home/u'')],
      toy_failing = [],
      toy_writes = [(''/sdk/build-tools/28.0.3/dx'', [(''classes.dex'', File)]),
                    (''/sdk/build-tools/28.0.3/aapt'', [(''app.apk.unaligned'', File)]),
                    (''/sdk/build-tools/28.0.3/zipalign'', [(''app.apk'', File)])],
      toy_locked = []\<rparr>"

definition work_args :: args where
  "work_args = default_args\<lparr>androidHome := ''/sdk'', androidManifestFilepath := ''/work/AndroidManifest.xml'',
     outputDir := ''/work''\<rparr>"

text \<open>
  Three more runs of the project: the bytecode translator exits with a failure; the
  directory of generated sources may not be removed; and the program is started in
  \<open>/work\<close> with the flag \<open>-out /out\<close>.
\<close>

definition w_dx_fails :: toy where
  "w_dx_fails = (project java_tree)\<lparr>toy_failing := [''/sdk/build-tools/28.0.3/dx'']\<rparr>"

definition w_locked :: toy where
  "w_locked = (project java_tree)\<lparr>toy_locked := [''generated_java_sources'']\<rparr>"

definition w_out :: toy where
  "w_out = (project java_tree)\<lparr>
     toy_root := Dir [(''sdk'', sdk_28),
                      (''work'', Dir [(''AndroidManifest.xml'', File), (''xml'', Dir []), (''java'', java_tree)]),
                      (''out'', Dir [])],
     toy_writes := [(''/sdk/build-tools/28.0.3/dx'', [(''classes.dex'', File)]),
                    (''/sdk/build-tools/28.0.3/aapt'',
                       [(''/out/generated_java_sources'', Dir [(''R.java'', File)]),
                        (''app.apk.unaligned'', File)]),
                    (''/sdk/build-tools/28.0.3/zipalign'', [(''app.apk'', File)])]\<rparr>"

definition out_args :: args where
  "out_args = default_args\<lparr>outputDir := ''/out''\<rparr>"

definition no_stderr :: "event \<Rightarrow> bool" where
  "no_stderr e = (case e of EvStderr m \<Rightarrow> False | _ \<Rightarrow> True)"

section \<open>Properties\<close>

subsection \<open>The cleanup\<close>

lemma remove_paths_append:
  "remove_paths sys (ps @ qs) s =
     (case remove_paths sys ps s of
        (Some e, s') \<Rightarrow> (Some e, s')
      | (None, s') \<Rightarrow> remove_paths sys qs s')"
  by (induction ps arbitrary: s) (auto split: sum.splits option.splits prod.splits)

text \<open>
  Claim C8.  \<open>remove\<close> takes its paths in order, and once the paths \<open>ps\<close> before a
  path \<open>p\<close> have been removed it first calls \<open>Stat\<close> on \<open>p\<close>.  When that fails,
  \<open>remove\<close> returns the error at once: the trace ends with that \<open>Stat\<close>, whatever
  paths \<open>qs\<close> follow.  When it succeeds on a directory, the next call is
  \<open>RemoveAll p\<close>, otherwise \<open>Remove p\<close>; an error of either ends the cleanup too, and
  without one the cleanup goes on with \<open>qs\<close>.
\<close>

theorem remove_stat_first_fail_fast:
  assumes "remove_paths sys ps s = (None, s1)"
  shows "(\<forall>err. os_Stat sys (world s1) p = Inl err \<longrightarrow>
            remove_paths sys (ps @ p # qs) s =
              (Some (''could not stat file at '' @ quoted p @ '' due to error: '' @ err @ nl),
               s1\<lparr>trace := trace s1 @ [EvStat p]\<rparr>))
       \<and> (\<forall>f r w'. os_Stat sys (world s1) p = Inr f \<and> IsDir f \<and>
              os_RemoveAll sys (world s1) p = (r, w') \<longrightarrow>
            remove_paths sys (ps @ p # qs) s =
              (case r of
                 Some err \<Rightarrow>
                   (Some (''could not remove directory at '' @ quoted p @ '' due to error: '' @ err @ nl),
                    s1\<lparr>trace := trace s1 @ [EvStat p, EvRemoveAll p], world := w'\<rparr>)
               | None \<Rightarrow>
                   remove_paths sys qs (s1\<lparr>trace := trace s1 @ [EvStat p, EvRemoveAll p], world := w'\<rparr>)))
       \<and> (\<forall>f r w'. os_Stat sys (world s1) p = Inr f \<and> \<not> IsDir f \<and>
              os_Remove sys (world s1) p = (r, w') \<longrightarrow>
            remove_paths sys (ps @ p # qs) s =
              (case r of
                 Some err \<Rightarrow> (Some err, s1\<lparr>trace := trace s1 @ [EvStat p, EvRemove p], world := w'\<rparr>)
               | None \<Rightarrow>
                   remove_paths sys qs (s1\<lparr>trace := trace s1 @ [EvStat p, EvRemove p], world := w'\<rparr>)))"
  using assms
  by (auto simp: remove_paths_append log_def split: option.splits)

theorem remove_stat_first_fail_fast_witness:
  "remove_paths toy_os [''classes.dex''] (start w_cleanup) = (None, s_cleanup1)
   \<and> os_Stat toy_os (world s_cleanup1) ''app.apk.unaligned''
       = Inl ''stat app.apk.unaligned: no such file or directory''
   \<and> remove_paths toy_os ([''classes.dex''] @ ''app.apk.unaligned'' # [''generated_java_sources'']) (start w_cleanup)
       = (Some (''could not stat file at '' @ quoted ''app.apk.unaligned''
                @ '' due to error: '' @ ''stat app.apk.unaligned: no such file or directory'' @ nl),
          s_cleanup1\<lparr>trace := trace s_cleanup1 @ [EvStat ''app.apk.unaligned'']\<rparr>)
   \<and> exists_at (world s_cleanup1) ''generated_java_sources''
   \<and> remove_paths toy_os ([] @ ''generated_java_sources'' # []) (start w_cleanup)
       = (None, (start w_cleanup)\<lparr>trace := trace (start w_cleanup)
                     @ [EvStat ''generated_java_sources'', EvRemoveAll ''generated_java_sources''],
                   world := snd (toy_removeAll w_cleanup ''generated_java_sources'')\<rparr>)
   \<and> remove_paths toy_os ([] @ ''classes.dex'' # []) (start w_cleanup)
       = (None, (start w_cleanup)\<lparr>trace := trace (start w_cleanup)
                     @ [EvStat ''classes.dex'', EvRemove ''classes.dex''],
                   world := snd (toy_remove w_cleanup ''classes.dex'')\<rparr>)"
proof -
  have h0: "remove_paths toy_os [] (start w_cleanup) = (None, start w_cleanup)"
    by simp
  have h1: "remove_paths toy_os [''classes.dex''] (start w_cleanup) = (None, s_cleanup1)"
    by code_simp
  have h2: "os_Stat toy_os (world s_cleanup1) ''app.apk.unaligned''
       = Inl ''stat app.apk.unaligned: no such file or directory''"
    by code_simp
  have h3: "exists_at (world s_cleanup1) ''generated_java_sources''"
    by code_simp
  have d: "os_Stat toy_os (world (start w_cleanup)) ''generated_java_sources'' = Inr (Dir [(''R.java'', File)])
      \<and> IsDir (Dir [(''R.java'', File)])
      \<and> os_RemoveAll toy_os (world (start w_cleanup)) ''generated_java_sources''
          = (None, snd (toy_removeAll w_cleanup ''generated_java_sources''))"
    by code_simp
  have f: "os_Stat toy_os (world (start w_cleanup)) ''classes.dex'' = Inr File
      \<and> \<not> IsDir File
      \<and> os_Remove toy_os (world (start w_cleanup)) ''classes.dex''
          = (None, snd (toy_remove w_cleanup ''classes.dex''))"
    by code_simp
  note a = remove_stat_first_fail_fast [OF h1, of "''app.apk.unaligned''" "[''generated_java_sources'']"]
  note b = remove_stat_first_fail_fast [OF h0, of "''generated_java_sources''" "[]"]
  note c = remove_stat_first_fail_fast [OF h0, of "''classes.dex''" "[]"]
  from a h2 have 1: "remove_paths toy_os ([''classes.dex''] @ ''app.apk.unaligned'' # [''generated_java_sources'']) (start w_cleanup)
       = (Some (''could not stat file at '' @ quoted ''app.apk.unaligned''
                @ '' due to error: '' @ ''stat app.apk.unaligned: no such file or directory'' @ nl),
          s_cleanup1\<lparr>trace := trace s_cleanup1 @ [EvStat ''app.apk.unaligned'']\<rparr>)"
    by blast
  from b d have "remove_paths toy_os ([] @ ''generated_java_sources'' # []) (start w_cleanup)
       = (case None of
            Some err \<Rightarrow> (Some (''could not remove directory at '' @ quoted ''generated_java_sources''
                                 @ '' due to error: '' @ err @ nl),
                          (start w_cleanup)\<lparr>trace := trace (start w_cleanup)
                             @ [EvStat ''generated_java_sources'', EvRemoveAll ''generated_java_sources''],
                           world := snd (toy_removeAll w_cleanup ''generated_java_sources'')\<rparr>)
          | None \<Rightarrow> remove_paths toy_os [] ((start w_cleanup)\<lparr>trace := trace (start w_cleanup)
                             @ [EvStat ''generated_java_sources'', EvRemoveAll ''generated_java_sources''],
                           world := snd (toy_removeAll w_cleanup ''generated_java_sources'')\<rparr>))"
    by blast
  then have 2: "remove_paths toy_os ([] @ ''generated_java_sources'' # []) (start w_cleanup)
       = (None, (start w_cleanup)\<lparr>trace := trace (start w_cleanup)
                     @ [EvStat ''generated_java_sources'', EvRemoveAll ''generated_java_sources''],
                   world := snd (toy_removeAll w_cleanup ''generated_java_sources'')\<rparr>)"
    by simp
  from c f have "remove_paths toy_os ([] @ ''classes.dex'' # []) (start w_cleanup)
       = (case None of
            Some err \<Rightarrow> (Some err,
                          (start w_cleanup)\<lparr>trace := trace (start w_cleanup)
                             @ [EvStat ''classes.dex'', EvRemove ''classes.dex''],
                           world := snd (toy_remove w_cleanup ''classes.dex'')\<rparr>)
          | None \<Rightarrow> remove_paths toy_os [] ((start w_cleanup)\<lparr>trace := trace (start w_cleanup)
                             @ [EvStat ''classes.dex'', EvRemove ''classes.dex''],
                           world := snd (toy_remove w_cleanup ''classes.dex'')\<rparr>))"
    by blast
  then have 3: "remove_paths toy_os ([] @ ''classes.dex'' # []) (start w_cleanup)
       = (None, (start w_cleanup)\<lparr>trace := trace (start w_cleanup)
                     @ [EvStat ''classes.dex'', EvRemove ''classes.dex''],
                   world := snd (toy_remove w_cleanup ''classes.dex'')\<rparr>)"
    by simp
  from h1 h2 h3 1 2 3 show ?thesis by blast
qed

subsection \<open>Toolchain resolution\<close>

lemma sorted_last_greatest:
  fixes ff :: "'a::linorder list"
  shows "sorted ff \<Longrightarrow> x \<in> set ff \<Longrightarrow> x \<le> last ff"
  by (induction ff) (auto split: if_splits)

lemma nth_length_minus_1: "ff \<noteq> [] \<Longrightarrow> ff ! (length ff - Suc 0) = last ff"
  by (simp add: last_conv_nth)

text \<open>
  Claim C1, as the code has it.  When the listing \<open>ff\<close> of \<open>build-tools\<close> is not empty,
  \<open>initBuildTools\<close> selects its last element, in the order in which \<open>Readdir\<close> returned
  the listing: that is the entry it makes absolute and stores as the build-tools directory.
  \<open>initPlatforms\<close> does the same for \<open>platforms\<close>.  No name is compared with another.
  The selected entry is the greatest name in byte-wise order when the listing is in
  ascending order.
\<close>

theorem resolution_selects_last_listed:
  "(os_Abs sys (world s) (sdk t @ ''/build-tools'') = Inr a
      \<and> os_Open sys (world s) (sdk t @ ''/build-tools'') = None
      \<and> os_Readdir sys (world s) (sdk t @ ''/build-tools'') = Inr ff \<and> ff \<noteq> [] \<longrightarrow>
      buildTools (fst (fst (initBuildTools sys t s)))
        = (case os_Abs sys (world s) (sdk t @ ''/build-tools'' @ ''/'' @ last ff) of
             Inl e \<Rightarrow> [] | Inr b \<Rightarrow> b)
      \<and> EvAbs (sdk t @ ''/build-tools'' @ ''/'' @ last ff) \<in> set (trace (snd (initBuildTools sys t s)))
      \<and> (sorted ff \<longrightarrow> (\<forall>x \<in> set ff. x \<le> last ff)))
   \<and> (os_Abs sys (world s) (sdk t @ ''/platforms'') = Inr a'
      \<and> os_Open sys (world s) (sdk t @ ''/platforms'') = None
      \<and> os_Readdir sys (world s) (sdk t @ ''/platforms'') = Inr ff' \<and> ff' \<noteq> [] \<longrightarrow>
      platform (fst (fst (initPlatforms sys t s)))
        = (case os_Abs sys (world s) (sdk t @ ''/platforms'' @ ''/'' @ last ff') of
             Inl e \<Rightarrow> [] | Inr b \<Rightarrow> b)
      \<and> EvAbs (sdk t @ ''/platforms'' @ ''/'' @ last ff') \<in> set (trace (snd (initPlatforms sys t s)))
      \<and> (sorted ff' \<longrightarrow> (\<forall>x \<in> set ff'. x \<le> last ff')))"
proof (intro conjI impI)
  assume h: "os_Abs sys (world s) (sdk t @ ''/build-tools'') = Inr a
      \<and> os_Open sys (world s) (sdk t @ ''/build-tools'') = None
      \<and> os_Readdir sys (world s) (sdk t @ ''/build-tools'') = Inr ff \<and> ff \<noteq> []"
  then have len: "\<not> length ff < 1" by (cases ff) auto
  from h len show "buildTools (fst (fst (initBuildTools sys t s)))
        = (case os_Abs sys (world s) (sdk t @ ''/build-tools'' @ ''/'' @ last ff) of
             Inl e \<Rightarrow> [] | Inr b \<Rightarrow> b)"
    by (simp add: initBuildTools_def Let_def nth_length_minus_1 split: sum.splits)
  from h len show "EvAbs (sdk t @ ''/build-tools'' @ ''/'' @ last ff) \<in> set (trace (snd (initBuildTools sys t s)))"
    by (simp add: initBuildTools_def Let_def nth_length_minus_1 log_def split: sum.splits)
next
  assume h: "os_Abs sys (world s) (sdk t @ ''/platforms'') = Inr a'
      \<and> os_Open sys (world s) (sdk t @ ''/platforms'') = None
      \<and> os_Readdir sys (world s) (sdk t @ ''/platforms'') = Inr ff' \<and> ff' \<noteq> []"
  then have len: "\<not> length ff' < 1" by (cases ff') auto
  from h len show "platform (fst (fst (initPlatforms sys t s)))
        = (case os_Abs sys (world s) (sdk t @ ''/platforms'' @ ''/'' @ last ff') of
             Inl e \<Rightarrow> [] | Inr b \<Rightarrow> b)"
    by (simp add: initPlatforms_def Let_def nth_length_minus_1 split: sum.splits)
  from h len show "EvAbs (sdk t @ ''/platforms'' @ ''/'' @ last ff') \<in> set (trace (snd (initPlatforms sys t s)))"
    by (simp add: initPlatforms_def Let_def nth_length_minus_1 log_def split: sum.splits)
qed (auto intro: sorted_last_greatest)


theorem resolution_selects_last_listed_witness:
  "buildTools (fst (fst (initBuildTools toy_os (empty_toolchain\<lparr>sdk := ''/sdk''\<rparr>) (start w_sorted))))
     = ''/sdk/build-tools/30.0.1''
   \<and> platform (fst (fst (initPlatforms toy_os (empty_toolchain\<lparr>sdk := ''/sdk''\<rparr>) (start w_sorted))))
     = ''/sdk/platforms/android-29''
   \<and> list_all (\<lambda>x. x \<le> ''30.0.1'') [''28.0.3'', ''29.0.2'', ''30.0.1'']
   \<and> list_all (\<lambda>x. x \<le> ''android-29'') [''android-28'', ''android-29'']"
proof -
  let ?t = "empty_toolchain\<lparr>sdk := ''/sdk''\<rparr>"
  have b1: "os_Abs toy_os (world (start w_sorted)) (sdk ?t @ ''/build-tools'') = Inr ''/sdk/build-tools''"
    by code_simp
  have b2: "os_Open toy_os (world (start w_sorted)) (sdk ?t @ ''/build-tools'') = None"
    by code_simp
  have b3: "os_Readdir toy_os (world (start w_sorted)) (sdk ?t @ ''/build-tools'')
              = Inr [''28.0.3'', ''29.0.2'', ''30.0.1'']"
    by code_simp
  have b4: "os_Abs toy_os (world (start w_sorted)) (sdk ?t @ ''/build-tools'' @ ''/'' @ last [''28.0.3'', ''29.0.2'', ''30.0.1''])
              = Inr ''/sdk/build-tools/30.0.1''"
    by code_simp
  have b5: "sorted [''28.0.3'', ''29.0.2'', ''30.0.1'']"
    by code_simp
  have p1: "os_Abs toy_os (world (start w_sorted)) (sdk ?t @ ''/platforms'') = Inr ''/sdk/platforms''"
    by code_simp
  have p2: "os_Open toy_os (world (start w_sorted)) (sdk ?t @ ''/platforms'') = None"
    by code_simp
  have p3: "os_Readdir toy_os (world (start w_sorted)) (sdk ?t @ ''/platforms'')
              = Inr [''android-28'', ''android-29'']"
    by code_simp
  have p4: "os_Abs toy_os (world (start w_sorted)) (sdk ?t @ ''/platforms'' @ ''/'' @ last [''android-28'', ''android-29''])
              = Inr ''/sdk/platforms/android-29''"
    by code_simp
  have p5: "sorted [''android-28'', ''android-29'']"
    by code_simp
  note inst = resolution_selects_last_listed [of toy_os "start w_sorted" ?t
      "''/sdk/build-tools''" "[''28.0.3'', ''29.0.2'', ''30.0.1'']"
      "''/sdk/platforms''" "[''android-28'', ''android-29'']"]
  from inst b1 b2 b3 b5
  have "buildTools (fst (fst (initBuildTools toy_os ?t (start w_sorted))))
        = (case os_Abs toy_os (world (start w_sorted)) (sdk ?t @ ''/build-tools'' @ ''/'' @ last [''28.0.3'', ''29.0.2'', ''30.0.1'']) of
             Inl e \<Rightarrow> [] | Inr b \<Rightarrow> b)
        \<and> (\<forall>x \<in> set [''28.0.3'', ''29.0.2'', ''30.0.1'']. x \<le> last [''28.0.3'', ''29.0.2'', ''30.0.1''])"
    by blast
  with b4 have B: "buildTools (fst (fst (initBuildTools toy_os ?t (start w_sorted)))) = ''/sdk/build-tools/30.0.1''
      \<and> list_all (\<lambda>x. x \<le> ''30.0.1'') [''28.0.3'', ''29.0.2'', ''30.0.1'']"
    by (simp add: list_all_iff)
  from inst p1 p2 p3 p5
  have "platform (fst (fst (initPlatforms toy_os ?t (start w_sorted))))
        = (case os_Abs toy_os (world (start w_sorted)) (sdk ?t @ ''/platforms'' @ ''/'' @ last [''android-28'', ''android-29'']) of
             Inl e \<Rightarrow> [] | Inr b \<Rightarrow> b)
        \<and> (\<forall>x \<in> set [''android-28'', ''android-29'']. x \<le> last [''android-28'', ''android-29''])"
    by blast
  with p4 have P: "platform (fst (fst (initPlatforms toy_os ?t (start w_sorted)))) = ''/sdk/platforms/android-29''
      \<and> list_all (\<lambda>x. x \<le> ''android-29'') [''android-28'', ''android-29'']"
    by (simp add: list_all_iff)
  from B P show ?thesis by blast
qed

text \<open>
  The claim as the specification words it fails: a \<open>build-tools\<close> directory that lists
  \<open>30.0.1\<close>, \<open>28.0.3\<close>, \<open>29.0.2\<close> in this order resolves to \<open>29.0.2\<close>, which is not
  the greatest name.
\<close>

theorem lexicographically_greatest_counterexample:
  "os_Readdir toy_os w_unsorted ''/sdk/build-tools'' = Inr [''30.0.1'', ''28.0.3'', ''29.0.2'']
   \<and> snd (fst (newToolchain toy_os ''/sdk'' (start w_unsorted))) = None
   \<and> buildTools (fst (fst (newToolchain toy_os ''/sdk'' (start w_unsorted)))) = ''/sdk/build-tools/29.0.2''
   \<and> ''29.0.2'' < ''30.0.1''
   \<and> os_Readdir toy_os w_unsorted ''/sdk/platforms'' = Inr [''android-29'', ''android-28'']
   \<and> platform (fst (fst (newToolchain toy_os ''/sdk'' (start w_unsorted)))) = ''/sdk/platforms/android-28''
   \<and> ''android-28'' < ''android-29''"
  by code_simp


lemma digit_char_0: "digit_char 0 = CHR ''0''"
  by code_simp

text \<open>
  Claim C7.  When the \<open>build-tools\<close> directory of the SDK root can be opened and lists no
  entry, \<open>newToolchain\<close> fails with the message \<open>no build tools found under '0'\<close>
  (followed by the hint), and the calls it has made end with the reading of
  \<open>build-tools\<close>: nothing under \<open>platforms\<close> is opened or read.
\<close>

theorem empty_build_tools_fails_before_platforms:
  assumes "os_Abs sys (world s) SDKPath = Inr root"
      and "os_Abs sys (world s) (root @ ''/tools'') = Inr tools"
      and "os_Abs sys (world s) (root @ ''/build-tools'') = Inr bt"
      and "os_Open sys (world s) (root @ ''/build-tools'') = None"
      and "os_Readdir sys (world s) (root @ ''/build-tools'') = Inr []"
  shows "newToolchain sys SDKPath s =
           ((empty_toolchain\<lparr>sdk := root\<rparr>,
             Some (''no build tools found under '' @ quoted ''0'' @ nl @ hint SDKPath)),
            s\<lparr>trace := trace s @ [EvAbs SDKPath, EvAbs (root @ ''/tools''),
                                     EvAbs (root @ ''/build-tools''), EvOpen (root @ ''/build-tools''),
                                     EvReaddir (root @ ''/build-tools'')]\<rparr>)"
  using assms
  by (simp add: newToolchain_def initBuildTools_def Let_def log_def digit_char_0)

theorem empty_build_tools_fails_before_platforms_witness:
  "newToolchain toy_os ''/sdk'' (start w_no_build_tools) =
     ((empty_toolchain\<lparr>sdk := ''/sdk''\<rparr>,
       Some (''no build tools found under '' @ quoted ''0'' @ nl @ hint ''/sdk'')),
      (start w_no_build_tools)\<lparr>trace := trace (start w_no_build_tools) @
         [EvAbs ''/sdk'', EvAbs (''/sdk'' @ ''/tools''), EvAbs (''/sdk'' @ ''/build-tools''),
          EvOpen (''/sdk'' @ ''/build-tools''), EvReaddir (''/sdk'' @ ''/build-tools'')]\<rparr>)
   \<and> os_Readdir toy_os w_no_build_tools ''/sdk/platforms'' = Inr [''android-28'']"
proof -
  have a1: "os_Abs toy_os (world (start w_no_build_tools)) ''/sdk'' = Inr ''/sdk''"
    by code_simp
  have a2: "os_Abs toy_os (world (start w_no_build_tools)) (''/sdk'' @ ''/tools'') = Inr ''/sdk/tools''"
    by code_simp
  have a3: "os_Abs toy_os (world (start w_no_build_tools)) (''/sdk'' @ ''/build-tools'') = Inr ''/sdk/build-tools''"
    by code_simp
  have a4: "os_Open toy_os (world (start w_no_build_tools)) (''/sdk'' @ ''/build-tools'') = None"
    by code_simp
  have a5: "os_Readdir toy_os (world (start w_no_build_tools)) (''/sdk'' @ ''/build-tools'') = Inr []"
    by code_simp
  have a6: "os_Readdir toy_os w_no_build_tools ''/sdk/platforms'' = Inr [''android-28'']"
    by code_simp
  from empty_build_tools_fails_before_platforms [OF a1 a2 a3 a4 a5] a6 show ?thesis
    by blast
qed

text \<open>
  Claim C5 does not hold of the code.  \<open>filepath.Abs\<close> does not look at the file
  system, so the paths of \<open>aapt\<close>, \<open>dx\<close> and \<open>android.jar\<close> are never checked: an SDK
  whose version directories are empty resolves without an error, to three paths at which
  nothing exists.
\<close>

theorem hollow_toolchain_resolves:
  "newToolchain toy_os ''/sdk'' (start w_hollow) =
     ((\<lparr>sdk = ''/sdk'', buildTools = ''/sdk/build-tools/28.0.3'', platform = ''/sdk/platforms/android-28'',
        androidLib = ''/sdk/platforms/android-28/android.jar'',
        aaptBin = ''/sdk/build-tools/28.0.3/aapt'', dxBin = ''/sdk/build-tools/28.0.3/dx''\<rparr>, None),
      \<lparr>world = w_hollow,
       trace = [EvAbs ''/sdk'', EvAbs ''/sdk/tools'',
                EvAbs ''/sdk/build-tools'', EvOpen ''/sdk/build-tools'', EvReaddir ''/sdk/build-tools'',
                EvAbs ''/sdk/build-tools/28.0.3'', EvAbs ''/sdk/build-tools/28.0.3/aapt'',
                EvAbs ''/sdk/build-tools/28.0.3/dx'',
                EvAbs ''/sdk/platforms'', EvOpen ''/sdk/platforms'', EvReaddir ''/sdk/platforms'',
                EvAbs ''/sdk/platforms/android-28'', EvAbs ''/sdk/platforms/android-28/android.jar'']\<rparr>)
   \<and> exists_at w_hollow ''/sdk/build-tools/28.0.3''
   \<and> exists_at w_hollow ''/sdk/platforms/android-28''
   \<and> \<not> exists_at w_hollow ''/sdk/build-tools/28.0.3/aapt''
   \<and> \<not> exists_at w_hollow ''/sdk/build-tools/28.0.3/dx''
   \<and> \<not> exists_at w_hollow ''/sdk/platforms/android-28/android.jar''"
  by code_simp

subsection \<open>File discovery\<close>

lemma javaFilename_suffix: "javaFilename_MatchString name \<longleftrightarrow> suffix ''.java'' name"
proof
  assume "javaFilename_MatchString name"
  then obtain j where "drop j name = ''.java''"
    unfolding javaFilename_MatchString_def by blast
  then have "name = take j name @ ''.java''"
    by (metis append_take_drop_id)
  then show "suffix ''.java'' name"
    unfolding suffix_def by blast
next
  assume "suffix ''.java'' name"
  then obtain zs where n: "name = zs @ ''.java''"
    unfolding suffix_def by blast
  let ?j = "length zs"
  have 1: "?j \<in> set [0..<Suc (length name)]" using n by simp
  have 2: "?j \<in> set [?j..<Suc (length name)]" using n by simp
  have 3: "CHR 0x0A \<notin> set (take (?j - ?j) (drop ?j name)) \<and> drop ?j name = ''.java''"
    using n by simp
  from 1 2 3 show "javaFilename_MatchString name"
    unfolding javaFilename_MatchString_def by blast
qed


lemma canon_in_insort_key:
  "canon_in (insort_key fst (n, c) es) = insort_key fst (n, canon c) (canon_in es)"
  by (induction es) auto

lemma canon_in_sort_key: "canon_in (sort_key fst es) = sort_key fst (canon_in es)"
proof (induction es)
  case Nil
  show ?case by simp
next
  case (Cons x es)
  obtain n c where x: "x = (n, c)" by (cases x)
  show ?case using Cons by (simp add: x canon_in_insort_key)
qed

lemma sort_key_idem: "sort_key f (sort_key f xs) = sort_key f xs"
  by (simp add: sort_key_id_if_sorted)

lemma readable_in_iff: "readable_in es \<longleftrightarrow> (\<forall>x \<in> set es. readable (snd x))"
  by (induction es) auto

lemma readable_in_sort_key: "readable_in (sort_key f es) = readable_in es"
  by (simp add: readable_in_iff)

lemma java_entries_in_Union:
  "java_entries_in p es = (\<Union>x \<in> set es. java_entries (filepath_Join p (fst x)) (fst x) (snd x))"
  by (induction es) auto

lemma set_preorder_in:
  "set (preorder_in p es) = (\<Union>x \<in> set es. set (preorder (filepath_Join p (fst x)) (fst x) (snd x)))"
  by (induction es) auto

lemma walkFn_dir: "walkFn p name True None paths = (paths, None)"
  by (simp add: walkFn_def)

lemma walkFn_file:
  "walkFn p name False None paths = (if suffix ''.java'' name then paths @ [p] else paths, None)"
  by (simp add: walkFn_def javaFilename_suffix)

lemma walkFn_err: "walkFn p name d (Some e) paths = (paths, Some e)"
  by (simp add: walkFn_def)

lemma walk_readable:
  "readable n \<Longrightarrow> walk p name n acc = (acc @ preorder p name (canon n), None)"
  "readable_in es \<Longrightarrow> walk_names p es acc = (acc @ preorder_in p (canon_in es), None)"
proof (induction p name n acc and p es acc rule: walk_walk_names.induct)
  case (4 p name es paths)
  then show ?case
    by (simp add: walkFn_dir readable_in_sort_key canon_in_sort_key)
qed (auto simp: walkFn_file walkFn_err)

lemma walk_unreadable:
  "\<not> readable n \<Longrightarrow> snd (walk p name n acc) \<noteq> None"
  "\<not> readable_in es \<Longrightarrow> snd (walk_names p es acc) \<noteq> None"
proof (induction p name n acc and p es acc rule: walk_walk_names.induct)
  case (4 p name es paths)
  then show ?case
    by (simp add: walkFn_dir readable_in_sort_key)
next
  case (6 p n c es paths)
  then show ?case
    by (cases "walk (filepath_Join p n) n c paths") (auto split: option.splits)
qed (auto simp: walkFn_file walkFn_err)

lemma set_preorder_canon:
  "set (preorder p name (canon n)) = java_entries p name n"
  "set (preorder_in p (canon_in es)) = java_entries_in p es"
proof (induction p name n and p es rule: java_entries_java_entries_in.induct)
  case (2 p name es)
  have "set (preorder_in p (sort_key fst (canon_in es))) = set (preorder_in p (canon_in es))"
    by (simp add: set_preorder_in)
  with 2 show ?case by simp
qed auto

lemma walk_canon:
  "walk p name (canon n) acc = walk p name n acc"
  "walk_names p (canon_in es) acc = walk_names p es acc"
proof (induction p name n acc and p es acc rule: walk_walk_names.induct)
  case (4 p name es paths)
  then show ?case
    by (simp add: walkFn_dir sort_key_idem flip: canon_in_sort_key)
next
  case (6 p n c es paths)
  then show ?case
    by (cases "walk (filepath_Join p n) n c paths") (auto split: option.splits)
qed auto


lemma findJavaSourceFiles_fst:
  "fst (findJavaSourceFiles sys rootDir s) =
     (case os_Lstat sys (world s) rootDir of
        Inl e \<Rightarrow> ([], Some (''received error when finding Java source files under '' @ quoted rootDir
                            @ '' : '' @ e @ nl))
      | Inr n \<Rightarrow>
          (case walk rootDir (basename rootDir) n [] of
             (paths, Some e) \<Rightarrow>
               (paths, Some (''received error when finding Java source files under '' @ quoted rootDir
                            @ '' : '' @ e @ nl))
           | (paths, None) \<Rightarrow> (paths, None)))"
  by (auto simp: findJavaSourceFiles_def Let_def walkFn_err split: sum.splits option.splits prod.splits)

text \<open>
  Claim C6.  The regular expression of the code accepts exactly the names that end in
  \<open>.java\<close>.  On a tree without a failing node, \<open>findJavaSourceFiles\<close> returns no error
  and a list whose elements are exactly the entries of the tree that are not directories
  and have such a name: directories are walked into, and are not in the list.  When a node
  of the tree fails, or the root cannot be examined, it returns an error; and that error
  ends the process with status 1 before the compiler is started, whether it comes from
  the tree of the sources or from the tree of the generated sources.
\<close>

theorem findJavaSourceFiles_exact:
  "(javaFilename_MatchString name \<longleftrightarrow> suffix ''.java'' name)
   \<and> (os_Lstat sys (world s) rootDir = Inr n \<and> readable n \<longrightarrow>
        (\<exists>paths. fst (findJavaSourceFiles sys rootDir s) = (paths, None)
           \<and> set paths = java_entries rootDir (basename rootDir) n))
   \<and> (os_Lstat sys (world s) rootDir = Inr n \<and> \<not> readable n \<longrightarrow>
        snd (fst (findJavaSourceFiles sys rootDir s)) \<noteq> None)
   \<and> (os_Lstat sys (world s) rootDir = Inl e \<longrightarrow>
        fst (findJavaSourceFiles sys rootDir s) =
          ([], Some (''received error when finding Java source files under '' @ quoted rootDir
                     @ '' : '' @ e @ nl)))
   \<and> (generateJavaFileForAndroidResources sys t (outputDir a @ ''/'' @ outputDirForGeneratedSourceFiles)
          (androidManifestFilepath a) (xmlResourcesFilepath a) s0 = (None, s1)
        \<and> findJavaSourceFiles sys (javaSourcesFilepath a) s1 = ((ps, Some err), s2) \<longrightarrow>
        main_pipeline sys t a s0 =
          (1, log (EvStderr (''could not compile java source files to bytecode due to error: ''
                             @ (''could not find java source files to compile due to error: '' @ err) @ nl)) s2))
   \<and> (generateJavaFileForAndroidResources sys t (outputDir a @ ''/'' @ outputDirForGeneratedSourceFiles)
          (androidManifestFilepath a) (xmlResourcesFilepath a) s0 = (None, s1)
        \<and> findJavaSourceFiles sys (javaSourcesFilepath a) s1 = ((ps, None), s2)
        \<and> findJavaSourceFiles sys outputDirForGeneratedSourceFiles s2 = ((ps', Some err), s3) \<longrightarrow>
        main_pipeline sys t a s0 =
          (1, log (EvStderr (''could not compile java source files to bytecode due to error: ''
                             @ (''could not find java source files to compile due to error: '' @ err) @ nl)) s3))"
proof (intro conjI impI)
  show "javaFilename_MatchString name \<longleftrightarrow> suffix ''.java'' name"
    by (rule javaFilename_suffix)
next
  assume "os_Lstat sys (world s) rootDir = Inr n \<and> readable n"
  then show "\<exists>paths. fst (findJavaSourceFiles sys rootDir s) = (paths, None)
           \<and> set paths = java_entries rootDir (basename rootDir) n"
    by (simp add: findJavaSourceFiles_fst walk_readable set_preorder_canon)
next
  assume h: "os_Lstat sys (world s) rootDir = Inr n \<and> \<not> readable n"
  then have "snd (walk rootDir (basename rootDir) n []) \<noteq> None"
    by (simp add: walk_unreadable)
  with h show "snd (fst (findJavaSourceFiles sys rootDir s)) \<noteq> None"
    by (cases "walk rootDir (basename rootDir) n []") (auto simp: findJavaSourceFiles_fst)
next
  assume "os_Lstat sys (world s) rootDir = Inl e"
  then show "fst (findJavaSourceFiles sys rootDir s) =
          ([], Some (''received error when finding Java source files under '' @ quoted rootDir
                     @ '' : '' @ e @ nl))"
    by (simp add: findJavaSourceFiles_fst)
next
  assume "generateJavaFileForAndroidResources sys t (outputDir a @ ''/'' @ outputDirForGeneratedSourceFiles)
          (androidManifestFilepath a) (xmlResourcesFilepath a) s0 = (None, s1)
        \<and> findJavaSourceFiles sys (javaSourcesFilepath a) s1 = ((ps, Some err), s2)"
  then show "main_pipeline sys t a s0 =
          (1, log (EvStderr (''could not compile java source files to bytecode due to error: ''
                             @ (''could not find java source files to compile due to error: '' @ err) @ nl)) s2)"
    by (simp add: main_pipeline_def compileJavaSourceFilesToJavaVirtualMachineBytecode_def fatal_def)
next
  assume "generateJavaFileForAndroidResources sys t (outputDir a @ ''/'' @ outputDirForGeneratedSourceFiles)
          (androidManifestFilepath a) (xmlResourcesFilepath a) s0 = (None, s1)
        \<and> findJavaSourceFiles sys (javaSourcesFilepath a) s1 = ((ps, None), s2)
        \<and> findJavaSourceFiles sys outputDirForGeneratedSourceFiles s2 = ((ps', Some err), s3)"
  then show "main_pipeline sys t a s0 =
          (1, log (EvStderr (''could not compile java source files to bytecode due to error: ''
                             @ (''could not find java source files to compile due to error: '' @ err) @ nl)) s3)"
    by (simp add: main_pipeline_def compileJavaSourceFilesToJavaVirtualMachineBytecode_def fatal_def)
qed

text \<open>
  Claim C10.  The result of \<open>findJavaSourceFiles\<close> is a function of the tree alone, and it
  does not depend on the order in which the directories list their entries: two trees
  that agree once every directory is sorted give the same list, in the same order.  On a
  readable tree that list is the listing of the sorted tree, parents before children.
\<close>

theorem findJavaSourceFiles_order_independent:
  assumes "os_Lstat sys (world s) rootDir = Inr n"
      and "os_Lstat sys' (world s') rootDir = Inr n'"
      and "canon n = canon n'"
  shows "fst (findJavaSourceFiles sys rootDir s) = fst (findJavaSourceFiles sys' rootDir s')
       \<and> (readable n \<longrightarrow>
            fst (findJavaSourceFiles sys rootDir s) = (preorder rootDir (basename rootDir) (canon n), None))"
proof -
  have "walk rootDir (basename rootDir) n [] = walk rootDir (basename rootDir) n' []"
    using assms(3) walk_canon(1) by metis
  with assms(1,2) have 1: "fst (findJavaSourceFiles sys rootDir s) = fst (findJavaSourceFiles sys' rootDir s')"
    by (simp add: findJavaSourceFiles_fst)
  have 2: "readable n \<longrightarrow>
            fst (findJavaSourceFiles sys rootDir s) = (preorder rootDir (basename rootDir) (canon n), None)"
    using assms(1) by (simp add: findJavaSourceFiles_fst walk_readable)
  from 1 2 show ?thesis by blast
qed


theorem findJavaSourceFiles_exact_witness:
  "(\<exists>paths. fst (findJavaSourceFiles toy_os ''java'' (start (project java_tree))) = (paths, None)
       \<and> set paths = {''java/A.java'', ''java/sub/C.java''})
   \<and> snd (fst (findJavaSourceFiles toy_os ''java'' (start (project java_tree_unreadable)))) \<noteq> None
   \<and> fst (main_pipeline toy_os toolchain_28 work_args (start (project java_tree_unreadable))) = 1
   \<and> javaFilename_MatchString ''A.java'' \<and> \<not> javaFilename_MatchString ''b.txt''
   \<and> (\<exists>paths. fst (findJavaSourceFiles toy_os ''.'' (start ((project java_tree)\<lparr>toy_cwd := ''/work/java''\<rparr>)))
                  = (paths, None)
       \<and> set paths = {''A.java'', ''sub/C.java''})"
proof -
  have l0: "os_Lstat toy_os (world (start ((project java_tree)\<lparr>toy_cwd := ''/work/java''\<rparr>))) ''.''
              = Inr java_tree"
    by code_simp
  have e0: "java_entries ''.'' (basename ''.'') java_tree = {''A.java'', ''sub/C.java''}"
    by code_simp
  have l1: "os_Lstat toy_os (world (start (project java_tree))) ''java'' = Inr java_tree"
    by code_simp
  have r1: "readable java_tree"
    by code_simp
  have e1: "java_entries ''java'' (basename ''java'') java_tree = {''java/A.java'', ''java/sub/C.java''}"
    by code_simp
  have l2: "os_Lstat toy_os (world (start (project java_tree_unreadable))) ''java'' = Inr java_tree_unreadable"
    by code_simp
  have r2: "\<not> readable java_tree_unreadable"
    by code_simp
  let ?s0 = "start (project java_tree_unreadable)"
  let ?g = "generateJavaFileForAndroidResources toy_os toolchain_28
              (outputDir work_args @ ''/'' @ outputDirForGeneratedSourceFiles)
              (androidManifestFilepath work_args) (xmlResourcesFilepath work_args) ?s0"
  let ?f = "findJavaSourceFiles toy_os (javaSourcesFilepath work_args) (snd ?g)"
  have "fst ?g = None"
    by code_simp
  then have g: "?g = (None, snd ?g)"
    by (metis prod.collapse)
  have "snd (fst ?f) \<noteq> None"
    by code_simp
  then obtain err where "snd (fst ?f) = Some err"
    by blast
  then have f: "?f = ((fst (fst ?f), Some err), snd ?f)"
    by (metis prod.collapse)
  have s1: "suffix ''.java'' ''A.java''"
    by (simp add: suffix_def)
  have s2: "\<not> suffix ''.java'' ''b.txt''"
    by (auto simp: suffix_def append_eq_Cons_conv)
  note a = findJavaSourceFiles_exact [of "''A.java''" toy_os "start (project java_tree)" "''java''" java_tree
      undefined toolchain_28 work_args ?s0 "snd ?g" "fst (fst ?f)" err "snd ?f" undefined undefined]
  note b = findJavaSourceFiles_exact [of "''b.txt''" toy_os "start (project java_tree_unreadable)" "''java''"
      java_tree_unreadable]
  from a l1 r1 e1 have 1: "\<exists>paths. fst (findJavaSourceFiles toy_os ''java'' (start (project java_tree))) = (paths, None)
       \<and> set paths = {''java/A.java'', ''java/sub/C.java''}"
    by simp
  from b l2 r2 have 2: "snd (fst (findJavaSourceFiles toy_os ''java'' (start (project java_tree_unreadable)))) \<noteq> None"
    by blast
  from a g f have 3: "fst (main_pipeline toy_os toolchain_28 work_args ?s0) = 1"
    by simp
  note c = findJavaSourceFiles_exact [of "''A.java''" toy_os
      "start ((project java_tree)\<lparr>toy_cwd := ''/work/java''\<rparr>)" "''.''" java_tree]
  from c l0 r1 e0 have 6: "\<exists>paths. fst (findJavaSourceFiles toy_os ''.''
          (start ((project java_tree)\<lparr>toy_cwd := ''/work/java''\<rparr>))) = (paths, None)
       \<and> set paths = {''A.java'', ''sub/C.java''}"
    by simp
  from a s1 have 4: "javaFilename_MatchString ''A.java''" by blast
  from b s2 have 5: "\<not> javaFilename_MatchString ''b.txt''" by blast
  from 1 2 3 4 5 6 show ?thesis by blast
qed

theorem findJavaSourceFiles_order_independent_witness:
  "fst (findJavaSourceFiles toy_os ''java'' (start (project java_tree_listed_otherwise)))
     = fst (findJavaSourceFiles toy_os ''java'' (start (project java_tree)))
   \<and> fst (findJavaSourceFiles toy_os ''java'' (start (project java_tree_listed_otherwise)))
     = ([''java/A.java'', ''java/sub/C.java''], None)
   \<and> preorder ''java'' ''java'' java_tree_listed_otherwise = [''java/sub/C.java'', ''java/A.java'']"
proof -
  have l1: "os_Lstat toy_os (world (start (project java_tree_listed_otherwise))) ''java''
              = Inr java_tree_listed_otherwise"
    by code_simp
  have l2: "os_Lstat toy_os (world (start (project java_tree))) ''java'' = Inr java_tree"
    by code_simp
  have c: "canon java_tree_listed_otherwise = canon java_tree"
    by code_simp
  have r: "readable java_tree_listed_otherwise"
    by code_simp
  have p: "preorder ''java'' (basename ''java'') (canon java_tree_listed_otherwise)
             = [''java/A.java'', ''java/sub/C.java'']"
    by code_simp
  have q: "preorder ''java'' ''java'' java_tree_listed_otherwise = [''java/sub/C.java'', ''java/A.java'']"
    by code_simp
  from findJavaSourceFiles_order_independent [OF l1 l2 c] r p q show ?thesis
    by metis
qed

subsection \<open>The command line of a step\<close>

lemma strings_Split_not_Nil: "strings_Split s \<noteq> []"
  by (induction s) (auto split: list.splits)

lemma join_space_Cons: "ts \<noteq> [] \<Longrightarrow> join_space (t # ts) = t @ '' '' @ join_space ts"
  by (cases ts) auto

lemma join_space_Split: "join_space (strings_Split s) = s"
proof (induction s)
  case Nil
  show ?case by simp
next
  case (Cons c s)
  show ?case
  proof (cases "c = CHR 0x20")
    case True
    then show ?thesis using Cons by (simp add: join_space_Cons strings_Split_not_Nil)
  next
    case False
    obtain t ts where ts: "strings_Split s = t # ts"
      using strings_Split_not_Nil by (cases "strings_Split s") auto
    show ?thesis
    proof (cases ts)
      case Nil
      with False ts Cons show ?thesis by simp
    next
      case (Cons u us)
      with False ts \<open>join_space (strings_Split s) = s\<close> show ?thesis by simp
    qed
  qed
qed

lemma Split_no_space: "t \<in> set (strings_Split s) \<Longrightarrow> CHR 0x20 \<notin> set t"
proof (induction s arbitrary: t)
  case Nil
  then show ?case by simp
next
  case (Cons c s)
  obtain u us where us: "strings_Split s = u # us"
    using strings_Split_not_Nil by (cases "strings_Split s") auto
  show ?case
  proof (cases "c = CHR 0x20")
    case True
    with Cons show ?thesis by auto
  next
    case False
    with Cons.prems us have "t = c # u \<or> t \<in> set us" by simp
    then show ?thesis
    proof
      assume "t = c # u"
      moreover have "CHR 0x20 \<notin> set u" using Cons.IH [of u] us by simp
      ultimately show ?thesis using False by auto
    next
      assume "t \<in> set us"
      then show ?thesis using Cons.IH [of t] us by simp
    qed
  qed
qed

lemma Split_chars: "t \<in> set (strings_Split s) \<Longrightarrow> set t \<subseteq> set s"
proof (induction s arbitrary: t)
  case Nil
  then show ?case by simp
next
  case (Cons c s)
  obtain u us where us: "strings_Split s = u # us"
    using strings_Split_not_Nil by (cases "strings_Split s") auto
  show ?case
  proof (cases "c = CHR 0x20")
    case True
    with Cons show ?thesis by auto
  next
    case False
    with Cons.prems us have "t = c # u \<or> t \<in> set us" by simp
    then show ?thesis
    proof
      assume "t = c # u"
      moreover have "set u \<subseteq> set s" using Cons.IH [of u] us by simp
      ultimately show ?thesis by auto
    next
      assume "t \<in> set us"
      then show ?thesis using Cons.IH [of t] us by auto
    qed
  qed
qed

lemma Replace_only_spaces:
  "c \<in> set (spaces_ReplaceAllString s) \<Longrightarrow> isspace c \<Longrightarrow> c = CHR 0x20"
proof (induction s rule: spaces_ReplaceAllString.induct)
  case 1
  then show ?case by simp
next
  case (2 d ds)
  then show ?case by (auto split: if_splits)
qed

lemma Replace_no_space: "\<forall>c \<in> set s. \<not> isspace c \<Longrightarrow> spaces_ReplaceAllString s = s"
  by (induction s) auto

lemma dropWhile_all: "\<forall>c \<in> set ws. P c \<Longrightarrow> b = [] \<or> \<not> P (hd b) \<Longrightarrow> dropWhile P (ws @ b) = b"
  by (induction ws) (auto simp: dropWhile_eq_self_iff)

lemma Replace_run_front:
  assumes "ws \<noteq> []" "\<forall>c \<in> set ws. isspace c" "b = [] \<or> \<not> isspace (hd b)"
  shows "spaces_ReplaceAllString (ws @ b) = CHR 0x20 # spaces_ReplaceAllString b"
proof -
  obtain w ws' where ws: "ws = w # ws'" using assms(1) by (cases ws) auto
  with assms(2) have "isspace w" "\<forall>c \<in> set ws'. isspace c" by auto
  moreover have "dropWhile isspace (ws' @ b) = b"
    using \<open>\<forall>c \<in> set ws'. isspace c\<close> assms(3) by (rule dropWhile_all)
  ultimately show ?thesis using ws by simp
qed

lemma Replace_run:
  assumes "ws \<noteq> []" "\<forall>c \<in> set ws. isspace c" "b = [] \<or> \<not> isspace (hd b)"
  shows "a = [] \<or> \<not> isspace (last a) \<Longrightarrow>
         spaces_ReplaceAllString (a @ ws @ b) = spaces_ReplaceAllString a @ CHR 0x20 # spaces_ReplaceAllString b"
proof (induction a rule: spaces_ReplaceAllString.induct)
  case 1
  show ?case using Replace_run_front [OF assms] by simp
next
  case (2 c cs)
  show ?case
  proof (cases "isspace c")
    case False
    with 2 show ?thesis by (auto split: if_splits)
  next
    case True
    with 2(3) have ne: "cs \<noteq> []" and l: "\<not> isspace (last cs)" by (auto split: if_splits)
    let ?d = "dropWhile isspace cs"
    have mem: "last cs \<in> set cs" using ne by simp
    have d: "dropWhile isspace (cs @ ws @ b) = ?d @ ws @ b"
      using mem l by (rule dropWhile_append1)
    have dne: "?d \<noteq> []" using mem l by (auto simp: dropWhile_eq_Nil_conv)
    have "last ?d = last cs"
      using dne by (metis last_appendR takeWhile_dropWhile_id)
    with l dne have "?d = [] \<or> \<not> isspace (last ?d)" by simp
    with 2(1) True have "spaces_ReplaceAllString (?d @ ws @ b)
        = spaces_ReplaceAllString ?d @ CHR 0x20 # spaces_ReplaceAllString b" by simp
    with True d show ?thesis by simp
  qed
qed

subsection \<open>Whole runs\<close>

lemma quiet_simps [simp]:
  "quiet []" "quiet (e # evs) = (\<not> failed e \<and> quiet evs)" "quiet (xs @ ys) = (quiet xs \<and> quiet ys)"
  by (auto simp: quiet_def)

lemma trace_log [simp]: "trace (log e s) = trace s @ [e]"
  by (simp add: log_def)

lemma world_log [simp]: "world (log e s) = world s"
  by (simp add: log_def)

lemma extends_refl [simp]: "extends s s"
  by (simp add: extends_def)

lemma extends_trans: "extends s s1 \<Longrightarrow> extends s1 s2 \<Longrightarrow> extends s s2"
  by (auto simp: extends_def)

lemma extends_world [simp]: "extends s (s'\<lparr>world := w\<rparr>) = extends s s'"
  by (simp add: extends_def)

lemma extends_log: "\<not> failed e \<Longrightarrow> extends s s' \<Longrightarrow> extends s (log e s')"
  by (auto simp: extends_def)

lemma initBuildTools_extends: "extends s (snd (initBuildTools sys t s))"
  by (simp add: initBuildTools_def Let_def extends_log split: sum.splits option.splits)

lemma initPlatforms_extends: "extends s (snd (initPlatforms sys t s))"
  by (simp add: initPlatforms_def Let_def extends_log split: sum.splits option.splits)

lemma initBuildTools_extendsD:
  "initBuildTools sys t s1 = (r, s2) \<Longrightarrow> extends s s1 \<Longrightarrow> extends s s2"
  using initBuildTools_extends [of s1 sys t] extends_trans by fastforce

lemma initPlatforms_extendsD:
  "initPlatforms sys t s1 = (r, s2) \<Longrightarrow> extends s s1 \<Longrightarrow> extends s s2"
  using initPlatforms_extends [of s1 sys t] extends_trans by fastforce

lemma newToolchain_extends: "extends s (snd (newToolchain sys p s))"
proof -
  have c: "extends s (log (EvAbs (x @ ''/tools'')) (log (EvAbs p) s))" for x
    by (simp add: extends_log)
  show ?thesis
    unfolding newToolchain_def Let_def
    by (auto simp: extends_log split: sum.splits option.splits prod.splits
        intro: initBuildTools_extendsD [OF _ c] initPlatforms_extendsD [OF _ initBuildTools_extendsD [OF _ c]])
qed

lemma newToolchain_extendsD:
  "newToolchain sys p s1 = (r, s2) \<Longrightarrow> extends s s1 \<Longrightarrow> extends s s2"
  using newToolchain_extends [of s1 sys p] extends_trans by fastforce

lemma makeOutputDirs_extends: "extends s (snd (makeOutputDirs sys ps s))"
proof (induction ps arbitrary: s)
  case Nil
  show ?case by simp
next
  case (Cons p ps)
  have "extends s (snd (makeOutputDirs sys ps ((log (EvMkdir p) s)\<lparr>world := w\<rparr>)))" for w
  proof -
    have "extends s ((log (EvMkdir p) s)\<lparr>world := w\<rparr>)"
      by (simp add: extends_log)
    from extends_trans [OF this Cons] show ?thesis .
  qed
  then show ?case
    by (auto simp: extends_log split: prod.splits option.splits)
qed

lemma makeOutputDirs_extendsD:
  "makeOutputDirs sys ps s1 = (r, s2) \<Longrightarrow> extends s s1 \<Longrightarrow> extends s s2"
  using makeOutputDirs_extends [of s1 sys ps] extends_trans by fastforce

lemma remove_paths_extends: "extends s (snd (remove_paths sys ps s))"
proof (induction ps arbitrary: s)
  case Nil
  show ?case by simp
next
  case (Cons p ps)
  have a: "extends s (snd (remove_paths sys ps ((log (EvRemoveAll p) (log (EvStat p) s))\<lparr>world := w\<rparr>)))" for w
  proof -
    have "extends s ((log (EvRemoveAll p) (log (EvStat p) s))\<lparr>world := w\<rparr>)"
      by (simp add: extends_log)
    from extends_trans [OF this Cons] show ?thesis .
  qed
  have b: "extends s (snd (remove_paths sys ps ((log (EvRemove p) (log (EvStat p) s))\<lparr>world := w\<rparr>)))" for w
  proof -
    have "extends s ((log (EvRemove p) (log (EvStat p) s))\<lparr>world := w\<rparr>)"
      by (simp add: extends_log)
    from extends_trans [OF this Cons] show ?thesis .
  qed
  show ?case
    using a b by (auto simp: extends_log split: prod.splits option.splits sum.splits)
qed

lemma findJavaSourceFiles_extends: "extends s (snd (findJavaSourceFiles sys root s))"
  by (simp add: findJavaSourceFiles_def Let_def extends_log split: prod.splits option.splits)

lemma findJavaSourceFiles_extendsD:
  "findJavaSourceFiles sys root s1 = (r, s2) \<Longrightarrow> extends s s1 \<Longrightarrow> extends s s2"
  using findJavaSourceFiles_extends [of s1 sys root] extends_trans by fastforce

lemma main_setup_extends:
  "(main_setup sys a s0 = Inl (code, s') \<longrightarrow> code = 1 \<and> extends s0 s')
   \<and> (main_setup sys a s0 = Inr (t, a', s') \<longrightarrow> extends s0 s')"
  unfolding main_setup_def Let_def fatal_def
  by (auto simp: extends_log split: sum.splits option.splits prod.splits if_splits
      intro!: extends_log
      intro: newToolchain_extendsD makeOutputDirs_extendsD [OF _ newToolchain_extendsD])

lemma run_eq:
  "run sys command s =
     (let toks = strings_Split (spaces_ReplaceAllString command);
          (r, w') = os_Run sys (world s) (hd toks) (tl toks)
      in (map_option (\<lambda>err. ''error when running command '' @ command @ '' : '' @ err @ nl) r,
          (log (EvRun (hd toks) (tl toks) r) s)\<lparr>world := w'\<rparr>))"
  by (simp add: run_def Let_def split: prod.splits option.splits)

lemma run_trace:
  "run sys command s = (r, s') \<Longrightarrow>
     (r = None \<longrightarrow> extends s s') \<and>
     (r \<noteq> None \<longrightarrow> (\<exists>p argv err. trace s' = trace s @ [EvRun p argv (Some err)]))"
  by (auto simp: run_def Let_def extends_log split: prod.splits option.splits)

lemma step_ok_run: "step_ok (run sys command)"
  unfolding step_ok_def failed_last_def
proof (intro allI impI)
  fix s r s'
  assume "run sys command s = (r, s')"
  from run_trace [OF this]
  show "(r = None \<longrightarrow> extends s s') \<and>
        (r \<noteq> None \<longrightarrow> extends s s' \<or>
          (\<exists>pre p argv err. trace s' = trace s @ pre @ [EvRun p argv (Some err)] \<and> quiet pre))"
    by (metis append_Nil quiet_simps(1))
qed

lemma step_ok_compile:
  "step_ok (compileJavaSourceFilesToJavaVirtualMachineBytecode sys t j g b)"
  unfolding step_ok_def
proof (intro allI impI)
  fix s r s'
  assume c: "compileJavaSourceFilesToJavaVirtualMachineBytecode sys t j g b s = (r, s')"
  obtain r1 s1 where f1: "findJavaSourceFiles sys j s = (r1, s1)"
    by (cases "findJavaSourceFiles sys j s")
  obtain r2 s2 where f2: "findJavaSourceFiles sys g s1 = (r2, s2)"
    by (cases "findJavaSourceFiles sys g s1")
  have e1: "extends s s1" using findJavaSourceFiles_extendsD [OF f1] by simp
  have e2: "extends s s2" using findJavaSourceFiles_extendsD [OF f2 e1] .
  show "(r = None \<longrightarrow> extends s s') \<and> (r \<noteq> None \<longrightarrow> extends s s' \<or> failed_last s s')"
  proof (cases "snd r1")
    case (Some e)
    with c f1 e1 show ?thesis
      by (cases r1) (auto simp: compileJavaSourceFilesToJavaVirtualMachineBytecode_def)
  next
    case None
    note n1 = this
    show ?thesis
    proof (cases "snd r2")
      case (Some e)
      with c f1 f2 n1 e2 show ?thesis
        by (cases r1; cases r2) (auto simp: compileJavaSourceFilesToJavaVirtualMachineBytecode_def)
    next
      case None
      with c f1 f2 n1 have "run sys (compile_command t j g b (fst r1 @ fst r2)) s2 = (r, s')"
        by (cases r1; cases r2) (auto simp: compileJavaSourceFilesToJavaVirtualMachineBytecode_def)
      then have a: "(r = None \<longrightarrow> extends s2 s') \<and> (r \<noteq> None \<longrightarrow> extends s2 s' \<or> failed_last s2 s')"
        using step_ok_run [of sys "compile_command t j g b (fst r1 @ fst r2)"]
        unfolding step_ok_def by blast
      obtain evs where evs: "trace s2 = trace s @ evs" "quiet evs"
        using e2 by (auto simp: extends_def)
      have "failed_last s2 s' \<Longrightarrow> failed_last s s'"
      proof -
        assume "failed_last s2 s'"
        then obtain pre p argv err where "trace s' = trace s2 @ pre @ [EvRun p argv (Some err)]" "quiet pre"
          by (auto simp: failed_last_def)
        with evs have "trace s' = trace s @ (evs @ pre) @ [EvRun p argv (Some err)] \<and> quiet (evs @ pre)"
          by simp
        then show ?thesis unfolding failed_last_def by blast
      qed
      with a e2 show ?thesis using extends_trans by blast
    qed
  qed
qed

lemma seq_shape:
  assumes "\<forall>(m, f) \<in> set fs. step_ok f"
  shows "(seq fs s = Inr s' \<longrightarrow> extends s s')
       \<and> (seq fs s = Inl (code, s') \<longrightarrow> code = 1 \<and> (\<exists>evs. trace s' = trace s @ evs \<and> shape code evs))"
  using assms
proof (induction fs arbitrary: s)
  case Nil
  show ?case by simp
next
  case (Cons mf fs)
  obtain m f where mf: "mf = (m, f)" by (cases mf)
  obtain r s1 where fs1: "f s = (r, s1)" by (cases "f s")
  from Cons.prems mf have ok: "step_ok f" and rest: "\<forall>(m, f) \<in> set fs. step_ok f" by auto
  from ok fs1 have st: "(r = None \<longrightarrow> extends s s1) \<and> (r \<noteq> None \<longrightarrow> extends s s1 \<or> failed_last s s1)"
    by (simp add: step_ok_def)
  show ?case
  proof (cases r)
    case None
    with st obtain evs where evs: "trace s1 = trace s @ evs" "quiet evs"
      by (auto simp: extends_def)
    from None mf fs1 have eq: "seq (mf # fs) s = seq fs s1" by simp
    have 1: "seq fs s1 = Inr s' \<longrightarrow> extends s s'"
      using Cons.IH [OF rest, of s1] None st extends_trans by blast
    have 2: "seq fs s1 = Inl (code, s') \<longrightarrow> code = 1 \<and> (\<exists>evs. trace s' = trace s @ evs \<and> shape code evs)"
    proof
      assume "seq fs s1 = Inl (code, s')"
      with Cons.IH [OF rest, of s1] obtain evs' where c: "code = 1" and
        e: "trace s' = trace s1 @ evs'" "shape code evs'" by blast
      from e(2) evs(2) have "shape code (evs @ evs')"
        unfolding shape_def
      proof (elim disjE exE conjE)
        assume "quiet evs'" "quiet evs"
        then show "quiet (evs @ evs') \<or>
          (\<exists>pre p argv err msg. evs @ evs' = pre @ [EvRun p argv (Some err), EvStderr msg] \<and> quiet pre \<and> code = 1)"
          by simp
      next
        fix pre p argv err msg
        assume "evs' = pre @ [EvRun p argv (Some err), EvStderr msg]" "quiet pre" "code = 1" "quiet evs"
        then have "evs @ evs' = (evs @ pre) @ [EvRun p argv (Some err), EvStderr msg] \<and> quiet (evs @ pre) \<and> code = 1"
          by simp
        then show "quiet (evs @ evs') \<or>
          (\<exists>pre p argv err msg. evs @ evs' = pre @ [EvRun p argv (Some err), EvStderr msg] \<and> quiet pre \<and> code = 1)"
          by blast
      qed
      with c e(1) evs(1) show "code = 1 \<and> (\<exists>evs. trace s' = trace s @ evs \<and> shape code evs)"
        by auto
    qed
    from eq 1 2 show ?thesis by simp
  next
    case (Some err)
    with mf fs1 have eq: "seq (mf # fs) s = Inl (1, log (EvStderr (m @ err @ nl)) s1)"
      by (simp add: fatal_def)
    from st Some have "extends s s1 \<or> failed_last s s1" by simp
    then have "\<exists>evs. trace (log (EvStderr (m @ err @ nl)) s1) = trace s @ evs \<and> shape 1 evs"
    proof
      assume "extends s s1"
      then obtain evs where "trace s1 = trace s @ evs" "quiet evs" by (auto simp: extends_def)
      then have "trace (log (EvStderr (m @ err @ nl)) s1) = trace s @ (evs @ [EvStderr (m @ err @ nl)])
          \<and> shape 1 (evs @ [EvStderr (m @ err @ nl)])"
        by (simp add: shape_def)
      then show ?thesis by blast
    next
      assume "failed_last s s1"
      then obtain pre p argv e where "trace s1 = trace s @ pre @ [EvRun p argv (Some e)]" "quiet pre"
        by (auto simp: failed_last_def)
      then have "trace (log (EvStderr (m @ err @ nl)) s1) = trace s @ (pre @ [EvRun p argv (Some e), EvStderr (m @ err @ nl)])
          \<and> shape 1 (pre @ [EvRun p argv (Some e), EvStderr (m @ err @ nl)])"
        by (auto simp: shape_def)
      then show ?thesis by blast
    qed
    with eq show ?thesis by auto
  qed
qed

lemma main_pipeline_seq:
  "main_pipeline sys t a s =
     (case seq (pipeline_steps sys t a) s of
        Inl exited \<Rightarrow> exited
      | Inr s7 \<Rightarrow> (0, snd (remove_paths sys ([outputDexFilepath, filepathOfUnalignedAPK] @ tmpDirs) s7)))"
  unfolding main_pipeline_def pipeline_steps_def
  by (simp split: prod.splits option.splits)

lemma step_ok_sign: "step_ok (signAndroidApplicationPackageWithDebugKey sys t u)"
  unfolding step_ok_def
proof (intro allI impI)
  fix s r s'
  assume "signAndroidApplicationPackageWithDebugKey sys t u s = (r, s')"
  then have "run sys (sign_command (Getenv sys (world s) ''HOME'') u) (log (EvGetenv ''HOME'') s) = (r, s')"
    by (simp add: signAndroidApplicationPackageWithDebugKey_def)
  from run_trace [OF this]
  have "(r = None \<longrightarrow> extends (log (EvGetenv ''HOME'') s) s') \<and>
     (r \<noteq> None \<longrightarrow> (\<exists>p argv err. trace s' = trace s @ [EvGetenv ''HOME''] @ [EvRun p argv (Some err)]))"
    by simp
  moreover have "extends s (log (EvGetenv ''HOME'') s)"
    by (simp add: extends_log)
  moreover have "quiet [EvGetenv ''HOME'']" by simp
  ultimately show "(r = None \<longrightarrow> extends s s') \<and> (r \<noteq> None \<longrightarrow> extends s s' \<or> failed_last s s')"
    unfolding failed_last_def using extends_trans by blast
qed

lemma pipeline_steps_ok: "\<forall>(m, f) \<in> set (pipeline_steps sys t a). step_ok f"
proof -
  have g: "step_ok (generateJavaFileForAndroidResources sys t x y z)" for x y z
    using step_ok_run [of sys "generate_command t x y z"]
    by (simp add: step_ok_def generateJavaFileForAndroidResources_def)
  have tr: "step_ok (translateJavaVirtualMachineMBytecodeToAndroidRuntimeBytecode sys t x y)" for x y
    using step_ok_run [of sys "translate_command t x y"]
    by (simp add: step_ok_def translateJavaVirtualMachineMBytecodeToAndroidRuntimeBytecode_def)
  have c: "step_ok (createUnalignedAndroidApplicationPackage sys t x y z)" for x y z
    using step_ok_run [of sys "package_command t x y z"]
    by (simp add: step_ok_def createUnalignedAndroidApplicationPackage_def)
  have ad: "step_ok (addAndroidRuntimeBytecodeToAndroidApplicationPackage sys t x y)" for x y
    using step_ok_run [of sys "add_command t x y"]
    by (simp add: step_ok_def addAndroidRuntimeBytecodeToAndroidApplicationPackage_def)
  have al: "step_ok (alignUncompressedDataInZipFileToFourByteBoundariesForFasterMemoryMappingAtRuntime sys t x y)" for x y
    using step_ok_run [of sys "align_command t x y"]
    by (simp add: step_ok_def alignUncompressedDataInZipFileToFourByteBoundariesForFasterMemoryMappingAtRuntime_def)
  show ?thesis
    unfolding pipeline_steps_def
    by (simp add: g tr c ad al step_ok_sign step_ok_compile)
qed

lemma main_pipeline_shape:
  assumes "main_pipeline sys t a s = (code, s')"
  shows "\<exists>evs. trace s' = trace s @ evs \<and> shape code evs"
proof (cases "seq (pipeline_steps sys t a) s")
  case (Inl exited)
  with assms have "seq (pipeline_steps sys t a) s = Inl (code, s')"
    by (simp add: main_pipeline_seq)
  with seq_shape [OF pipeline_steps_ok] show ?thesis by blast
next
  case (Inr s7)
  with assms have c: "code = 0" and s': "s' = snd (remove_paths sys ([outputDexFilepath, filepathOfUnalignedAPK] @ tmpDirs) s7)"
    by (auto simp: main_pipeline_seq)
  from Inr seq_shape [OF pipeline_steps_ok] have "extends s s7" by blast
  with s' have "extends s s'"
    using remove_paths_extends extends_trans by blast
  then show ?thesis by (auto simp: extends_def shape_def)
qed

lemma main_shape:
  assumes "main sys a s = (code, s')"
  shows "\<exists>evs. trace s' = trace s @ evs \<and> shape code evs"
proof (cases "main_setup sys a s")
  case (Inl exited)
  with assms have "main_setup sys a s = Inl (code, s')" by (simp add: main_def)
  with main_setup_extends have "extends s s'" by blast
  then show ?thesis by (auto simp: extends_def shape_def)
next
  case (Inr x)
  obtain t a' s1 where x: "x = (t, a', s1)" by (cases x)
  with Inr assms have p: "main_pipeline sys t a' s1 = (code, s')" by (simp add: main_def)
  from Inr x main_setup_extends have "extends s s1" by blast
  then obtain evs where e: "trace s1 = trace s @ evs" "quiet evs" by (auto simp: extends_def)
  from main_pipeline_shape [OF p] obtain evs' where e': "trace s' = trace s1 @ evs'" "shape code evs'"
    by blast
  from e'(2) e(2) have "shape code (evs @ evs')"
    unfolding shape_def
  proof (elim disjE exE conjE)
    assume "quiet evs'" "quiet evs"
    then show "quiet (evs @ evs') \<or>
      (\<exists>pre p argv err msg. evs @ evs' = pre @ [EvRun p argv (Some err), EvStderr msg] \<and> quiet pre \<and> code = 1)"
      by simp
  next
    fix pre p argv err msg
    assume "evs' = pre @ [EvRun p argv (Some err), EvStderr msg]" "quiet pre" "code = 1" "quiet evs"
    then have "evs @ evs' = (evs @ pre) @ [EvRun p argv (Some err), EvStderr msg] \<and> quiet (evs @ pre) \<and> code = 1"
      by simp
    then show "quiet (evs @ evs') \<or>
      (\<exists>pre p argv err msg. evs @ evs' = pre @ [EvRun p argv (Some err), EvStderr msg] \<and> quiet pre \<and> code = 1)"
      by blast
  qed
  with e e' show ?thesis by auto
qed

lemma shape_failed_run:
  assumes "shape code evs" "evs = pre @ EvRun p argv (Some err) # post"
  shows "code = 1 \<and> (\<exists>msg. post = [EvStderr msg])"
proof -
  have nq: "\<not> quiet evs" using assms(2) by simp
  with assms(1) obtain pre' p' argv' err' msg where
    e: "evs = pre' @ [EvRun p' argv' (Some err'), EvStderr msg]" and q: "quiet pre'" and c: "code = 1"
    unfolding shape_def by blast
  from e assms(2) have eq: "pre @ EvRun p argv (Some err) # post = pre' @ [EvRun p' argv' (Some err'), EvStderr msg]"
    by simp
  have "length pre = length pre'"
  proof (rule ccontr)
    assume ne: "length pre \<noteq> length pre'"
    show False
    proof (cases "length pre < length pre'")
      case True
      have "(pre' @ [EvRun p' argv' (Some err'), EvStderr msg]) ! length pre = pre' ! length pre"
        using True by (simp add: nth_append)
      moreover have "(pre @ EvRun p argv (Some err) # post) ! length pre = EvRun p argv (Some err)"
        by simp
      ultimately have "pre' ! length pre = EvRun p argv (Some err)" using eq by simp
      then have "failed (pre' ! length pre)" by simp
      with q True show False by (auto simp: quiet_def list_all_length)
    next
      case False
      with ne have gt: "length pre' < length pre" by simp
      have len: "length pre + 1 + length post = length pre' + 2"
        using arg_cong [OF eq, of length] by simp
      with gt have "length post = 0" by arith
      with len have "length pre = length pre' + 1" "post = []" by auto
      then have "(pre @ EvRun p argv (Some err) # post) ! (length pre' + 1) = EvRun p argv (Some err)"
        by (simp add: nth_append)
      moreover have "(pre' @ [EvRun p' argv' (Some err'), EvStderr msg]) ! (length pre' + 1) = EvStderr msg"
        by (simp add: nth_append)
      ultimately show False using eq by simp
    qed
  qed
  with eq have "post = [EvStderr msg]" by simp
  with c show ?thesis by simp
qed

lemma tokens_no_space:
  assumes "tok \<in> set (strings_Split (spaces_ReplaceAllString command))" "c \<in> set tok"
  shows "\<not> isspace c"
proof
  assume sp: "isspace c"
  from Split_chars [OF assms(1)] assms(2) have "c \<in> set (spaces_ReplaceAllString command)" by blast
  with sp have "c = CHR 0x20" using Replace_only_spaces by blast
  with Split_no_space [OF assms(1)] assms(2) show False by simp
qed

text \<open>
  Claim C9.  The command line of \<open>run\<close> is split into tokens at its spaces after every
  maximal run of whitespace has become one space: a string without whitespace is left as
  it is, and a run of whitespace between two parts becomes one space between the two parts
  collapsed.  So the tokens, joined by single spaces, are the collapsed command line, and
  no token contains whitespace.  \<open>run\<close> starts one child process, with the first token
  as the program and the others as its arguments, and returns an error exactly when the
  child process fails.  Each step is \<open>run\<close> on one formatted command line.  In a run
  of \<open>main\<close>, a child process that fails is followed by one event only, the message on
  the error stream, and the exit status is 1.
\<close>

theorem run_splits_collapsed_command_and_aborts:
  "strings_Split (spaces_ReplaceAllString command) \<noteq> []
   \<and> join_space (strings_Split (spaces_ReplaceAllString command)) = spaces_ReplaceAllString command
   \<and> (\<forall>tok \<in> set (strings_Split (spaces_ReplaceAllString command)). \<forall>c \<in> set tok. \<not> isspace c)
   \<and> ((\<forall>c \<in> set u. \<not> isspace c) \<longrightarrow> spaces_ReplaceAllString u = u)
   \<and> (ws \<noteq> [] \<and> (\<forall>c \<in> set ws. isspace c) \<and> (x = [] \<or> \<not> isspace (last x)) \<and> (y = [] \<or> \<not> isspace (hd y))
        \<longrightarrow> spaces_ReplaceAllString (x @ ws @ y)
            = spaces_ReplaceAllString x @ '' '' @ spaces_ReplaceAllString y)
   \<and> (\<exists>r w'. os_Run sys (world s) (hd (strings_Split (spaces_ReplaceAllString command)))
                  (tl (strings_Split (spaces_ReplaceAllString command))) = (r, w')
        \<and> run sys command s =
            (map_option (\<lambda>err. ''error when running command '' @ command @ '' : '' @ err @ nl) r,
             s\<lparr>trace := trace s @ [EvRun (hd (strings_Split (spaces_ReplaceAllString command)))
                                         (tl (strings_Split (spaces_ReplaceAllString command))) r],
                world := w'\<rparr>))
   \<and> generateJavaFileForAndroidResources sys t J M S s = run sys (generate_command t J M S) s
   \<and> translateJavaVirtualMachineMBytecodeToAndroidRuntimeBytecode sys t dex dir s
        = run sys (translate_command t dex dir) s
   \<and> createUnalignedAndroidApplicationPackage sys t M S apk s = run sys (package_command t M S apk) s
   \<and> addAndroidRuntimeBytecodeToAndroidApplicationPackage sys t apk dex s = run sys (add_command t apk dex) s
   \<and> signAndroidApplicationPackageWithDebugKey sys t apk s
        = run sys (sign_command (Getenv sys (world s) ''HOME'') apk) (log (EvGetenv ''HOME'') s)
   \<and> alignUncompressedDataInZipFileToFourByteBoundariesForFasterMemoryMappingAtRuntime sys t apk apk' s
        = run sys (align_command t apk apk') s
   \<and> (findJavaSourceFiles sys j s = ((ps, None), s1) \<and> findJavaSourceFiles sys g s1 = ((ps', None), s2)
        \<longrightarrow> compileJavaSourceFilesToJavaVirtualMachineBytecode sys t j g b s
            = run sys (compile_command t j g b (ps @ ps')) s2)
   \<and> (main sys a s0 = (code, s') \<longrightarrow>
        (\<exists>evs. trace s' = trace s0 @ evs
           \<and> (\<forall>pre p argv err post. evs = pre @ EvRun p argv (Some err) # post
                 \<longrightarrow> code = 1 \<and> (\<exists>msg. post = [EvStderr msg]))))"
proof -
  have 1: "strings_Split (spaces_ReplaceAllString command) \<noteq> []"
    by (rule strings_Split_not_Nil)
  have 2: "join_space (strings_Split (spaces_ReplaceAllString command)) = spaces_ReplaceAllString command"
    by (rule join_space_Split)
  have 3: "\<forall>tok \<in> set (strings_Split (spaces_ReplaceAllString command)). \<forall>c \<in> set tok. \<not> isspace c"
    using tokens_no_space by blast
  have 4: "(\<forall>c \<in> set u. \<not> isspace c) \<longrightarrow> spaces_ReplaceAllString u = u"
    using Replace_no_space by blast
  have 5: "ws \<noteq> [] \<and> (\<forall>c \<in> set ws. isspace c) \<and> (x = [] \<or> \<not> isspace (last x)) \<and> (y = [] \<or> \<not> isspace (hd y))
        \<longrightarrow> spaces_ReplaceAllString (x @ ws @ y)
            = spaces_ReplaceAllString x @ '' '' @ spaces_ReplaceAllString y"
    using Replace_run [of ws y x] by simp
  have 6: "\<exists>r w'. os_Run sys (world s) (hd (strings_Split (spaces_ReplaceAllString command)))
                  (tl (strings_Split (spaces_ReplaceAllString command))) = (r, w')
        \<and> run sys command s =
            (map_option (\<lambda>err. ''error when running command '' @ command @ '' : '' @ err @ nl) r,
             s\<lparr>trace := trace s @ [EvRun (hd (strings_Split (spaces_ReplaceAllString command)))
                                         (tl (strings_Split (spaces_ReplaceAllString command))) r],
                world := w'\<rparr>)"
    by (cases "os_Run sys (world s) (hd (strings_Split (spaces_ReplaceAllString command)))
                  (tl (strings_Split (spaces_ReplaceAllString command)))")
       (simp add: run_eq Let_def log_def)
  have 7: "findJavaSourceFiles sys j s = ((ps, None), s1) \<and> findJavaSourceFiles sys g s1 = ((ps', None), s2)
        \<longrightarrow> compileJavaSourceFilesToJavaVirtualMachineBytecode sys t j g b s
            = run sys (compile_command t j g b (ps @ ps')) s2"
    by (simp add: compileJavaSourceFilesToJavaVirtualMachineBytecode_def)
  have 8: "main sys a s0 = (code, s') \<longrightarrow>
        (\<exists>evs. trace s' = trace s0 @ evs
           \<and> (\<forall>pre p argv err post. evs = pre @ EvRun p argv (Some err) # post
                 \<longrightarrow> code = 1 \<and> (\<exists>msg. post = [EvStderr msg])))"
  proof
    assume "main sys a s0 = (code, s')"
    from main_shape [OF this] obtain evs where e: "trace s' = trace s0 @ evs" "shape code evs"
      by blast
    from e(2) have "\<forall>pre p argv err post. evs = pre @ EvRun p argv (Some err) # post
                 \<longrightarrow> code = 1 \<and> (\<exists>msg. post = [EvStderr msg])"
      using shape_failed_run by blast
    with e(1) show "\<exists>evs. trace s' = trace s0 @ evs
           \<and> (\<forall>pre p argv err post. evs = pre @ EvRun p argv (Some err) # post
                 \<longrightarrow> code = 1 \<and> (\<exists>msg. post = [EvStderr msg]))"
      by blast
  qed
  from 1 2 3 4 5 6 7 8 show ?thesis
    by (simp only: generateJavaFileForAndroidResources_def
        translateJavaVirtualMachineMBytecodeToAndroidRuntimeBytecode_def
        createUnalignedAndroidApplicationPackage_def
        addAndroidRuntimeBytecodeToAndroidApplicationPackage_def
        signAndroidApplicationPackageWithDebugKey_def
        alignUncompressedDataInZipFileToFourByteBoundariesForFasterMemoryMappingAtRuntime_def
        simp_thms)
qed

text \<open>
  Claim C2.  When the run has come to the translation step (the set-up, the generation of
  the resource bindings and the compilation have succeeded) and the child process of the
  translation fails, \<open>main\<close> ends with status 1, and after that child process the trace
  holds one more event: the message \<open>could not translate bytecode with dexer due to
  error: ...\<close> on the error stream.  No packaging, signing, alignment or cleanup happens.
\<close>

theorem translate_failure_stops_pipeline:
  assumes "main_setup sys a0 s = Inr (t, a, s0)"
      and "generateJavaFileForAndroidResources sys t (outputDir a @ ''/'' @ outputDirForGeneratedSourceFiles)
             (androidManifestFilepath a) (xmlResourcesFilepath a) s0 = (None, s1)"
      and "compileJavaSourceFilesToJavaVirtualMachineBytecode sys t (javaSourcesFilepath a)
             outputDirForGeneratedSourceFiles outputDirForBytecode s1 = (None, s2)"
      and "strings_Split (spaces_ReplaceAllString (translate_command t outputDexFilepath outputDirForBytecode))
             = prog # argv"
      and "os_Run sys (world s2) prog argv = (Some err, w')"
  shows "main sys a0 s =
           (1, s2\<lparr>trace := trace s2 @
                    [EvRun prog argv (Some err),
                     EvStderr (''could not translate bytecode with dexer due to error: ''
                               @ (''error when running command ''
                                  @ translate_command t outputDexFilepath outputDirForBytecode
                                  @ '' : '' @ err @ nl) @ nl)],
                  world := w'\<rparr>)"
  using assms
  by (simp add: main_def main_pipeline_def translateJavaVirtualMachineMBytecodeToAndroidRuntimeBytecode_def
      run_def fatal_def log_def)

theorem translate_failure_stops_pipeline_witness:
  "fst (main toy_os default_args (start w_dx_fails)) = 1
   \<and> (\<exists>pre. trace (snd (main toy_os default_args (start w_dx_fails))) =
          pre @ [EvRun ''/sdk/build-tools/28.0.3/dx''
                   [''--dex'', ''--min-sdk-version=26'', ''--output'', ''classes.dex'',
                    ''java_virtual_machine_bytecode'']
                   (Some ''exit status 1''),
                 EvStderr (''could not translate bytecode with dexer due to error: ''
                   @ (''error when running command ''
                      @ ''/sdk/build-tools/28.0.3/dx --dex --min-sdk-version=26 --output classes.dex java_virtual_machine_bytecode''
                      @ '' : '' @ ''exit status 1'' @ nl) @ nl)])"
proof -
  let ?r = "main_setup toy_os default_args (start w_dx_fails)"
  let ?s0 = "snd (snd (projr ?r))"
  let ?g = "generateJavaFileForAndroidResources toy_os toolchain_28
              (outputDir work_args @ ''/'' @ outputDirForGeneratedSourceFiles)
              (androidManifestFilepath work_args) (xmlResourcesFilepath work_args) ?s0"
  let ?c = "compileJavaSourceFilesToJavaVirtualMachineBytecode toy_os toolchain_28
              (javaSourcesFilepath work_args) outputDirForGeneratedSourceFiles outputDirForBytecode (snd ?g)"
  have "\<not> isl ?r \<and> fst (projr ?r) = toolchain_28 \<and> fst (snd (projr ?r)) = work_args"
    by code_simp
  then have h1: "?r = Inr (toolchain_28, work_args, ?s0)"
    by (metis prod.collapse sum.collapse(2))
  have "fst ?g = None" by code_simp
  then have h2: "?g = (None, snd ?g)" by (metis prod.collapse)
  have "fst ?c = None" by code_simp
  then have h3: "?c = (None, snd ?c)" by (metis prod.collapse)
  have h4: "strings_Split (spaces_ReplaceAllString (translate_command toolchain_28 outputDexFilepath outputDirForBytecode))
      = ''/sdk/build-tools/28.0.3/dx'' #
        [''--dex'', ''--min-sdk-version=26'', ''--output'', ''classes.dex'', ''java_virtual_machine_bytecode'']"
    by code_simp
  have h5: "os_Run toy_os (world (snd ?c)) ''/sdk/build-tools/28.0.3/dx''
        [''--dex'', ''--min-sdk-version=26'', ''--output'', ''classes.dex'', ''java_virtual_machine_bytecode'']
      = (Some ''exit status 1'', world (snd ?c))"
    by code_simp
  have cmd: "translate_command toolchain_28 outputDexFilepath outputDirForBytecode
      = ''/sdk/build-tools/28.0.3/dx --dex --min-sdk-version=26 --output classes.dex java_virtual_machine_bytecode''"
    by code_simp
  from translate_failure_stops_pipeline [OF h1 h2 h3 h4 h5]
  show ?thesis by (simp add: cmd)
qed

text \<open>
  Claim C3 does not hold of the code: \<open>main\<close> calls \<open>remove\<close> and drops the error it
  returns.  In the project whose directory of generated sources may not be removed, every
  step succeeds, the cleanup stops at the \<open>RemoveAll\<close> that fails, and the process
  still ends with status 0 and nothing on the error stream; both temporary directories are
  left behind.
\<close>

theorem cleanup_error_is_dropped:
  "fst (main toy_os default_args (start w_locked)) = 0
   \<and> list_all no_stderr (trace (snd (main toy_os default_args (start w_locked))))
   \<and> last (trace (snd (main toy_os default_args (start w_locked)))) = EvRemoveAll ''generated_java_sources''
   \<and> os_RemoveAll toy_os (world (snd (main toy_os default_args (start w_locked)))) ''generated_java_sources''
        = (Some ''unlinkat generated_java_sources: permission denied'',
           world (snd (main toy_os default_args (start w_locked))))
   \<and> exists_at (world (snd (main toy_os default_args (start w_locked)))) ''generated_java_sources''
   \<and> exists_at (world (snd (main toy_os default_args (start w_locked)))) ''java_virtual_machine_bytecode''
   \<and> exists_at (world (snd (main toy_os default_args (start w_locked)))) ''app.apk''"
  by code_simp

text \<open>
  Claim C4 does not hold of the code when the output directory is not the working
  directory.  Started in \<open>/work\<close> with \<open>-out /out\<close>, the program passes the output
  directory to the resource compiler only (\<open>-J /out/generated_java_sources\<close>).  The
  temporary directories, the bytecode file and both archives are named relative to the
  working directory: the final archive is \<open>/work/app.apk\<close>, nothing named \<open>app.apk\<close> is
  under \<open>/out\<close>, and the generated sources under \<open>/out\<close> are not removed.
\<close>

theorem output_dir_is_not_used:
  "fst (main toy_os out_args (start w_out)) = 0
   \<and> EvMkdir ''generated_java_sources'' \<in> set (trace (snd (main toy_os out_args (start w_out))))
   \<and> EvRun ''/sdk/build-tools/28.0.3/aapt''
        [''package'', ''-f'', ''-m'', ''-J'', ''/out/generated_java_sources'', ''-M'',
         ''/work/AndroidManifest.xml'', ''-S'', ''xml'', ''-I'', ''/sdk/platforms/android-28/android.jar'']
        None \<in> set (trace (snd (main toy_os out_args (start w_out))))
   \<and> EvRun ''/sdk/build-tools/28.0.3/zipalign'' [''-f'', ''4'', ''app.apk.unaligned'', ''app.apk''] None
        \<in> set (trace (snd (main toy_os out_args (start w_out))))
   \<and> EvRemoveAll ''generated_java_sources'' \<in> set (trace (snd (main toy_os out_args (start w_out))))
   \<and> exists_at (world (snd (main toy_os out_args (start w_out)))) ''/work/app.apk''
   \<and> \<not> exists_at (world (snd (main toy_os out_args (start w_out)))) ''/out/app.apk''
   \<and> exists_at (world (snd (main toy_os out_args (start w_out)))) ''/out/generated_java_sources''
   \<and> \<not> exists_at (world (snd (main toy_os out_args (start w_out)))) ''/work/generated_java_sources''"
  by code_simp

theorem run_splits_collapsed_command_and_aborts_witness:
  "spaces_ReplaceAllString (''aapt'' @ [CHR 0x20, CHR 0x09, CHR 0x0A] @ ''add'') = ''aapt add''
   \<and> spaces_ReplaceAllString ''javac'' = ''javac''
   \<and> strings_Split (spaces_ReplaceAllString (''aapt'' @ [CHR 0x20, CHR 0x09, CHR 0x0A] @ ''add''))
        = [''aapt'', ''add'']
   \<and> fst (main toy_os default_args (start w_dx_fails)) = 1"
proof -
  let ?m = "main toy_os default_args (start w_dx_fails)"
  note inst = run_splits_collapsed_command_and_aborts
      [where command = "''aapt'' @ [CHR 0x20, CHR 0x09, CHR 0x0A] @ ''add''" and u = "''javac''"
         and ws = "[CHR 0x20, CHR 0x09, CHR 0x0A]" and x = "''aapt''" and y = "''add''"
         and sys = toy_os and a = default_args and ?s0.0 = "start w_dx_fails"
         and code = "fst ?m" and s' = "snd ?m"]
  note c4 = inst [THEN conjunct2, THEN conjunct2, THEN conjunct2, THEN conjunct1]
  note c5 = inst [THEN conjunct2, THEN conjunct2, THEN conjunct2, THEN conjunct2, THEN conjunct1]
  note c14 = inst [THEN conjunct2, THEN conjunct2, THEN conjunct2, THEN conjunct2, THEN conjunct2,
      THEN conjunct2, THEN conjunct2, THEN conjunct2, THEN conjunct2, THEN conjunct2,
      THEN conjunct2, THEN conjunct2, THEN conjunct2]
  have a1: "\<forall>c \<in> set ''javac''. \<not> isspace c" by code_simp
  have a2: "[CHR 0x20, CHR 0x09, CHR 0x0A] \<noteq> [] \<and> (\<forall>c \<in> set [CHR 0x20, CHR 0x09, CHR 0x0A]. isspace c)
      \<and> (''aapt'' = [] \<or> \<not> isspace (last ''aapt'')) \<and> (''add'' = [] \<or> \<not> isspace (hd ''add''))"
    by code_simp
  have a3: "spaces_ReplaceAllString ''aapt'' = ''aapt''" "spaces_ReplaceAllString ''add'' = ''add''"
    by code_simp+
  from c4 a1 have 1: "spaces_ReplaceAllString ''javac'' = ''javac''" by blast
  from c5 a2 have "spaces_ReplaceAllString (''aapt'' @ [CHR 0x20, CHR 0x09, CHR 0x0A] @ ''add'')
      = spaces_ReplaceAllString ''aapt'' @ '' '' @ spaces_ReplaceAllString ''add''" by blast
  with a3 have 2: "spaces_ReplaceAllString (''aapt'' @ [CHR 0x20, CHR 0x09, CHR 0x0A] @ ''add'') = ''aapt add''"
    by simp
  have 3: "strings_Split (spaces_ReplaceAllString (''aapt'' @ [CHR 0x20, CHR 0x09, CHR 0x0A] @ ''add''))
        = [''aapt'', ''add'']"
    unfolding 2 by code_simp
  have m: "?m = (fst ?m, snd ?m)" by simp
  with c14 obtain evs where e: "trace (snd ?m) = trace (start w_dx_fails) @ evs"
    and f: "\<forall>pre p argv err post. evs = pre @ EvRun p argv (Some err) # post
                 \<longrightarrow> fst ?m = 1 \<and> (\<exists>msg. post = [EvStderr msg])"
    by blast
  have t0: "trace (start w_dx_fails) = []" by (simp add: start_def)
  have "trace (snd ?m) = take 25 (trace (snd ?m))
      @ EvRun ''/sdk/build-tools/28.0.3/dx''
          [''--dex'', ''--min-sdk-version=26'', ''--output'', ''classes.dex'', ''java_virtual_machine_bytecode'']
          (Some ''exit status 1'')
      # drop 26 (trace (snd ?m))"
    by code_simp
  with e t0 have "evs = take 25 (trace (snd ?m))
      @ EvRun ''/sdk/build-tools/28.0.3/dx''
          [''--dex'', ''--min-sdk-version=26'', ''--output'', ''classes.dex'', ''java_virtual_machine_bytecode'']
          (Some ''exit status 1'')
      # drop 26 (trace (snd ?m))"
    by simp
  with f have 4: "fst ?m = 1" by blast
  from 1 2 3 4 show ?thesis by blast
qed

text \<open>For every operating system: once the seven steps have succeeded the exit status is 0,
  whatever the cleanup returns.\<close>

lemma cleanup_result_is_not_used:
  "seq (pipeline_steps sys t a) s = Inr s7 \<Longrightarrow>
     main_pipeline sys t a s =
       (0, snd (remove_paths sys ([outputDexFilepath, filepathOfUnalignedAPK] @ tmpDirs) s7))"
  by (simp add: main_pipeline_seq)

end
